theory Spec2Isabelle
  imports Main "HOL-Library.Word"
begin

unbundle bit_operations_syntax

section \<open>Values on the wire\<close>

text \<open>
  The bridge pairs one client websocket with one \<open>GeminiLiveClient\<close>. Python objects are
  told apart by identity: a websocket handle and a \<open>GeminiLiveClient\<close> instance are
  modelled by their addresses. A Python \<open>str\<close> is modelled by its UTF-8 bytes (equality
  and emptiness are preserved), \<open>bytes\<close> by a list of 8-bit words.
\<close>

type_synonym ws = nat
type_synonym cid = nat
type_synonym bytes = "8 word list"

text \<open>
  What \<open>json.loads\<close> returns: \<open>None\<close>, \<open>bool\<close>, \<open>int\<close>, \<open>float\<close> (its 64 IEEE bits),
  \<open>str\<close>, \<open>list\<close>, \<open>dict\<close> (keys unique, as the parser leaves them).
\<close>

datatype json =
    JNull
  | JBool bool
  | JInt int
  | JFloat "64 word"
  | JStr string
  | JArr "json list"
  | JObj "(string \<times> json) list"

type_synonym message = "(string \<times> json) list"

text \<open>Python truth value of a parsed value, as tested by \<open>if audio_data_b64:\<close> and \<open>if text:\<close>.
  A float is false exactly when it is \<open>0.0\<close> or \<open>-0.0\<close>, that is when all bits but the sign are 0.\<close>

fun truthy :: "json \<Rightarrow> bool" where
  "truthy JNull = False"
| "truthy (JBool b) = b"
| "truthy (JInt i) = (i \<noteq> 0)"
| "truthy (JFloat w) = (take_bit 63 w \<noteq> 0)"
| "truthy (JStr s) = (s \<noteq> [])"
| "truthy (JArr xs) = (xs \<noteq> [])"
| "truthy (JObj kvs) = (kvs \<noteq> [])"

text \<open>\<open>data.get(key)\<close> and \<open>data.get(key, default)\<close> on a dict.\<close>

definition dict_get :: "message \<Rightarrow> string \<Rightarrow> json" where
  "dict_get d k = (case map_of d k of None \<Rightarrow> JNull | Some v \<Rightarrow> v)"

definition dict_get_default :: "message \<Rightarrow> string \<Rightarrow> json \<Rightarrow> json" where
  "dict_get_default d k dflt = (case map_of d k of None \<Rightarrow> dflt | Some v \<Rightarrow> v)"

text \<open>The name Python prints for the type of a parsed value, and the text of the
  \<open>AttributeError\<close> raised by \<open>data.get\<close> when \<open>data\<close> is not a dict.\<close>

fun type_name :: "json \<Rightarrow> string" where
  "type_name JNull = ''NoneType''"
| "type_name (JBool b) = ''bool''"
| "type_name (JInt i) = ''int''"
| "type_name (JFloat w) = ''float''"
| "type_name (JStr s) = ''str''"
| "type_name (JArr xs) = ''list''"
| "type_name (JObj kvs) = ''dict''"

definition attribute_error :: "json \<Rightarrow> string \<Rightarrow> string" where
  "attribute_error v a =
     [CHR 0x27] @ type_name v @ [CHR 0x27] @ '' object has no attribute '' @
     [CHR 0x27] @ a @ [CHR 0x27]"

subsection \<open>Message texts\<close>

definition msg_connected :: string where
  \<comment> \<open>UTF-8 bytes of the Russian literal; in English: "Successfully connected to Gemini Live API"\<close>
  "msg_connected =
    [CHR 0xD0, CHR 0xA3, CHR 0xD1, CHR 0x81, CHR 0xD0, CHR 0xBF, CHR 0xD0, CHR 0xB5,
     CHR 0xD1, CHR 0x88, CHR 0xD0, CHR 0xBD, CHR 0xD0, CHR 0xBE, CHR 0x20, CHR 0xD0,
     CHR 0xBF, CHR 0xD0, CHR 0xBE, CHR 0xD0, CHR 0xB4, CHR 0xD0, CHR 0xBA, CHR 0xD0,
     CHR 0xBB, CHR 0xD1, CHR 0x8E, CHR 0xD1, CHR 0x87, CHR 0xD0, CHR 0xB8, CHR 0xD0,
     CHR 0xBB, CHR 0xD0, CHR 0xB8, CHR 0xD1, CHR 0x81, CHR 0xD1, CHR 0x8C, CHR 0x20,
     CHR 0xD0, CHR 0xBA, CHR 0x20, CHR 0x47, CHR 0x65, CHR 0x6D, CHR 0x69, CHR 0x6E,
     CHR 0x69, CHR 0x20, CHR 0x4C, CHR 0x69, CHR 0x76, CHR 0x65, CHR 0x20, CHR 0x41,
     CHR 0x50, CHR 0x49]"

definition msg_connect_failed :: string where
  \<comment> \<open>UTF-8 bytes of the Russian literal; in English: "Error connecting to Gemini Live API"\<close>
  "msg_connect_failed =
    [CHR 0xD0, CHR 0x9E, CHR 0xD1, CHR 0x88, CHR 0xD0, CHR 0xB8, CHR 0xD0, CHR 0xB1,
     CHR 0xD0, CHR 0xBA, CHR 0xD0, CHR 0xB0, CHR 0x20, CHR 0xD0, CHR 0xBF, CHR 0xD0,
     CHR 0xBE, CHR 0xD0, CHR 0xB4, CHR 0xD0, CHR 0xBA, CHR 0xD0, CHR 0xBB, CHR 0xD1,
     CHR 0x8E, CHR 0xD1, CHR 0x87, CHR 0xD0, CHR 0xB5, CHR 0xD0, CHR 0xBD, CHR 0xD0,
     CHR 0xB8, CHR 0xD1, CHR 0x8F, CHR 0x20, CHR 0xD0, CHR 0xBA, CHR 0x20, CHR 0x47,
     CHR 0x65, CHR 0x6D, CHR 0x69, CHR 0x6E, CHR 0x69, CHR 0x20, CHR 0x4C, CHR 0x69,
     CHR 0x76, CHR 0x65, CHR 0x20, CHR 0x41, CHR 0x50, CHR 0x49]"

definition msg_no_session :: string where
  \<comment> \<open>UTF-8 bytes of the Russian literal; in English: "Session not established"\<close>
  "msg_no_session =
    [CHR 0xD0, CHR 0xA1, CHR 0xD0, CHR 0xB5, CHR 0xD1, CHR 0x81, CHR 0xD1, CHR 0x81,
     CHR 0xD0, CHR 0xB8, CHR 0xD1, CHR 0x8F, CHR 0x20, CHR 0xD0, CHR 0xBD, CHR 0xD0,
     CHR 0xB5, CHR 0x20, CHR 0xD1, CHR 0x83, CHR 0xD1, CHR 0x81, CHR 0xD1, CHR 0x82,
     CHR 0xD0, CHR 0xB0, CHR 0xD0, CHR 0xBD, CHR 0xD0, CHR 0xBE, CHR 0xD0, CHR 0xB2,
     CHR 0xD0, CHR 0xBB, CHR 0xD0, CHR 0xB5, CHR 0xD0, CHR 0xBD, CHR 0xD0, CHR 0xB0]"

definition msg_audio_failed :: string where
  \<comment> \<open>UTF-8 bytes of the Russian literal; in English: "Error sending audio to Gemini"\<close>
  "msg_audio_failed =
    [CHR 0xD0, CHR 0x9E, CHR 0xD1, CHR 0x88, CHR 0xD0, CHR 0xB8, CHR 0xD0, CHR 0xB1,
     CHR 0xD0, CHR 0xBA, CHR 0xD0, CHR 0xB0, CHR 0x20, CHR 0xD0, CHR 0xBE, CHR 0xD1,
     CHR 0x82, CHR 0xD0, CHR 0xBF, CHR 0xD1, CHR 0x80, CHR 0xD0, CHR 0xB0, CHR 0xD0,
     CHR 0xB2, CHR 0xD0, CHR 0xBA, CHR 0xD0, CHR 0xB8, CHR 0x20, CHR 0xD0, CHR 0xB0,
     CHR 0xD1, CHR 0x83, CHR 0xD0, CHR 0xB4, CHR 0xD0, CHR 0xB8, CHR 0xD0, CHR 0xBE,
     CHR 0x20, CHR 0xD0, CHR 0xB2, CHR 0x20, CHR 0x47, CHR 0x65, CHR 0x6D, CHR 0x69,
     CHR 0x6E, CHR 0x69]"

definition msg_audio_decode :: string where
  \<comment> \<open>UTF-8 bytes of the Russian literal; in English: "Error decoding audio data"\<close>
  "msg_audio_decode =
    [CHR 0xD0, CHR 0x9E, CHR 0xD1, CHR 0x88, CHR 0xD0, CHR 0xB8, CHR 0xD0, CHR 0xB1,
     CHR 0xD0, CHR 0xBA, CHR 0xD0, CHR 0xB0, CHR 0x20, CHR 0xD0, CHR 0xB4, CHR 0xD0,
     CHR 0xB5, CHR 0xD0, CHR 0xBA, CHR 0xD0, CHR 0xBE, CHR 0xD0, CHR 0xB4, CHR 0xD0,
     CHR 0xB8, CHR 0xD1, CHR 0x80, CHR 0xD0, CHR 0xBE, CHR 0xD0, CHR 0xB2, CHR 0xD0,
     CHR 0xB0, CHR 0xD0, CHR 0xBD, CHR 0xD0, CHR 0xB8, CHR 0xD1, CHR 0x8F, CHR 0x20,
     CHR 0xD0, CHR 0xB0, CHR 0xD1, CHR 0x83, CHR 0xD0, CHR 0xB4, CHR 0xD0, CHR 0xB8,
     CHR 0xD0, CHR 0xBE, CHR 0x20, CHR 0xD0, CHR 0xB4, CHR 0xD0, CHR 0xB0, CHR 0xD0,
     CHR 0xBD, CHR 0xD0, CHR 0xBD, CHR 0xD1, CHR 0x8B, CHR 0xD1, CHR 0x85]"

definition msg_text_failed :: string where
  \<comment> \<open>UTF-8 bytes of the Russian literal; in English: "Error sending text to Gemini"\<close>
  "msg_text_failed =
    [CHR 0xD0, CHR 0x9E, CHR 0xD1, CHR 0x88, CHR 0xD0, CHR 0xB8, CHR 0xD0, CHR 0xB1,
     CHR 0xD0, CHR 0xBA, CHR 0xD0, CHR 0xB0, CHR 0x20, CHR 0xD0, CHR 0xBE, CHR 0xD1,
     CHR 0x82, CHR 0xD0, CHR 0xBF, CHR 0xD1, CHR 0x80, CHR 0xD0, CHR 0xB0, CHR 0xD0,
     CHR 0xB2, CHR 0xD0, CHR 0xBA, CHR 0xD0, CHR 0xB8, CHR 0x20, CHR 0xD1, CHR 0x82,
     CHR 0xD0, CHR 0xB5, CHR 0xD0, CHR 0xBA, CHR 0xD1, CHR 0x81, CHR 0xD1, CHR 0x82,
     CHR 0xD0, CHR 0xB0, CHR 0x20, CHR 0xD0, CHR 0xB2, CHR 0x20, CHR 0x47, CHR 0x65,
     CHR 0x6D, CHR 0x69, CHR 0x6E, CHR 0x69]"

definition msg_unknown_type :: string where
  \<comment> \<open>UTF-8 bytes of the Russian literal; in English: "Unknown message type: "\<close>
  "msg_unknown_type =
    [CHR 0xD0, CHR 0x9D, CHR 0xD0, CHR 0xB5, CHR 0xD0, CHR 0xB8, CHR 0xD0, CHR 0xB7,
     CHR 0xD0, CHR 0xB2, CHR 0xD0, CHR 0xB5, CHR 0xD1, CHR 0x81, CHR 0xD1, CHR 0x82,
     CHR 0xD0, CHR 0xBD, CHR 0xD1, CHR 0x8B, CHR 0xD0, CHR 0xB9, CHR 0x20, CHR 0xD1,
     CHR 0x82, CHR 0xD0, CHR 0xB8, CHR 0xD0, CHR 0xBF, CHR 0x20, CHR 0xD1, CHR 0x81,
     CHR 0xD0, CHR 0xBE, CHR 0xD0, CHR 0xBE, CHR 0xD0, CHR 0xB1, CHR 0xD1, CHR 0x89,
     CHR 0xD0, CHR 0xB5, CHR 0xD0, CHR 0xBD, CHR 0xD0, CHR 0xB8, CHR 0xD1, CHR 0x8F,
     CHR 0x3A, CHR 0x20]"

definition msg_invalid_json :: string where
  \<comment> \<open>UTF-8 bytes of the Russian literal; in English: "Invalid JSON format"\<close>
  "msg_invalid_json =
    [CHR 0xD0, CHR 0x9D, CHR 0xD0, CHR 0xB5, CHR 0xD0, CHR 0xB2, CHR 0xD0, CHR 0xB5,
     CHR 0xD1, CHR 0x80, CHR 0xD0, CHR 0xBD, CHR 0xD1, CHR 0x8B, CHR 0xD0, CHR 0xB9,
     CHR 0x20, CHR 0xD1, CHR 0x84, CHR 0xD0, CHR 0xBE, CHR 0xD1, CHR 0x80, CHR 0xD0,
     CHR 0xBC, CHR 0xD0, CHR 0xB0, CHR 0xD1, CHR 0x82, CHR 0x20, CHR 0x4A, CHR 0x53,
     CHR 0x4F, CHR 0x4E]"

definition msg_processing :: string where
  \<comment> \<open>UTF-8 bytes of the Russian literal; in English: "Error processing message: "\<close>
  "msg_processing =
    [CHR 0xD0, CHR 0x9E, CHR 0xD1, CHR 0x88, CHR 0xD0, CHR 0xB8, CHR 0xD0, CHR 0xB1,
     CHR 0xD0, CHR 0xBA, CHR 0xD0, CHR 0xB0, CHR 0x20, CHR 0xD0, CHR 0xBE, CHR 0xD0,
     CHR 0xB1, CHR 0xD1, CHR 0x80, CHR 0xD0, CHR 0xB0, CHR 0xD0, CHR 0xB1, CHR 0xD0,
     CHR 0xBE, CHR 0xD1, CHR 0x82, CHR 0xD0, CHR 0xBA, CHR 0xD0, CHR 0xB8, CHR 0x20,
     CHR 0xD1, CHR 0x81, CHR 0xD0, CHR 0xBE, CHR 0xD0, CHR 0xBE, CHR 0xD0, CHR 0xB1,
     CHR 0xD1, CHR 0x89, CHR 0xD0, CHR 0xB5, CHR 0xD0, CHR 0xBD, CHR 0xD0, CHR 0xB8,
     CHR 0xD1, CHR 0x8F, CHR 0x3A, CHR 0x20]"

definition error_frame :: "string \<Rightarrow> message" where
  "error_frame text = [(''type'', JStr ''error''), (''message'', JStr text)]"

definition default_mime_type :: json where
  "default_mime_type = JStr ''audio/pcm;rate=16000''"

subsection \<open>Base64 text of a byte string\<close>

text \<open>\<open>base64.b64encode(b).decode('utf-8')\<close>: the standard alphabet, three bytes to four
  characters, padded with \<open>=\<close>.\<close>

definition b64_alphabet :: string where
  "b64_alphabet = ''ABCDEFGHIJKLMNOPQRSTUVWXYZabcdefghijklmnopqrstuvwxyz0123456789+/''"

definition b64_char :: "8 word \<Rightarrow> char" where
  "b64_char w = b64_alphabet ! unat (w AND 63)"

fun b64encode :: "bytes \<Rightarrow> string" where
  "b64encode [] = []"
| "b64encode [a] =
     [b64_char (drop_bit 2 a), b64_char (push_bit 4 (a AND 3)), CHR ''='', CHR ''='']"
| "b64encode [a, b] =
     [b64_char (drop_bit 2 a), b64_char (push_bit 4 (a AND 3) OR drop_bit 4 b),
      b64_char (push_bit 2 (b AND 15)), CHR ''='']"
| "b64encode (a # b # c # rest) =
     [b64_char (drop_bit 2 a), b64_char (push_bit 4 (a AND 3) OR drop_bit 4 b),
      b64_char (push_bit 2 (b AND 15) OR drop_bit 6 c), b64_char c] @ b64encode rest"

section \<open>The environment\<close>

text \<open>
  Library and network behaviour the bridge cannot decide is a parameter of every operation:
  the outcome of \<open>json.loads\<close> on a raw frame, of \<open>base64.b64decode\<close> on a parsed value
  (\<open>None\<close> when it raises), of formatting a value into an f-string, and of each call into
  the Gemini SDK. Constructing \<open>GeminiLiveClient\<close> and serialising a reply with
  \<open>json.dumps\<close> are taken to succeed. Calls of \<open>logger\<close> are not modelled.
\<close>

datatype py_exception = JSONDecodeError | OtherException string

datatype connect_outcome =
    ConfigRaises         \<comment> \<open>building \<open>LiveConnectConfig\<close> raised\<close>
  | LiveConnectRaises    \<comment> \<open>\<open>client.aio.live.connect(...)\<close> raised\<close>
  | EnterRaises          \<comment> \<open>\<open>session.__aenter__()\<close> raised\<close>
  | Entered

datatype sdk_outcome =
    BuildRaises          \<comment> \<open>building \<open>types.Blob\<close> or \<open>types.Content\<close> raised\<close>
  | CallRaises           \<comment> \<open>the call on the session raised\<close>
  | CallReturns

record env =
  json_loads :: "string \<Rightarrow> py_exception + json"
  b64decode :: "json \<Rightarrow> bytes option"
  py_str :: "json \<Rightarrow> string"
  live_connect :: connect_outcome
  send_realtime_input :: "bytes \<Rightarrow> json \<Rightarrow> sdk_outcome"
  send_client_content :: "json \<Rightarrow> sdk_outcome"
  session_exit_raises :: bool

section \<open>GeminiLiveClient\<close>

datatype live_session = AsyncSession

text \<open>\<open>message_callback\<close> is always \<open>lambda msg: self.send_to_client(websocket, msg)\<close>;
  the closure is represented by the websocket it captures.\<close>

record gemini_live_client =
  api_key :: string
  model :: string
  session :: "live_session option"
  is_connected :: bool
  message_callback :: "ws option"

text \<open>Calls that reach the SDK, in the order made.\<close>

datatype sdk_call =
    LiveConnect
  | SessionEnter
  | SendRealtimeInput bytes json
  | SendClientContent json
  | SessionExit

definition gemini_live_client_init :: "string \<Rightarrow> gemini_live_client" where
  "gemini_live_client_init key =
     \<lparr>api_key = key, model = ''gemini-2.5-flash-preview-native-audio-dialog'',
      session = None, is_connected = False, message_callback = None\<rparr>"

definition connect :: "env \<Rightarrow> ws \<Rightarrow> gemini_live_client \<Rightarrow> bool \<times> gemini_live_client \<times> sdk_call list" where
  "connect e cb g =
     (let g1 = g\<lparr>message_callback := Some cb\<rparr> in
      case live_connect e of
        ConfigRaises \<Rightarrow> (False, g1, [])
      | LiveConnectRaises \<Rightarrow> (False, g1, [LiveConnect])
      | EnterRaises \<Rightarrow> (False, g1\<lparr>session := Some AsyncSession\<rparr>, [LiveConnect, SessionEnter])
      | Entered \<Rightarrow>
          (True, g1\<lparr>session := Some AsyncSession, is_connected := True\<rparr>,
           [LiveConnect, SessionEnter]))"

text \<open>A message from the remote session: \<open>response.data\<close>, \<open>response.server_content\<close>
  with its two flags, \<open>response.usage_metadata\<close>. SDK objects are true in a Python
  \<open>if\<close> whenever they are not \<open>None\<close>; an optional flag is true only when it is \<open>True\<close>.\<close>

record live_server_content =
  turn_complete :: "bool option"
  interrupted :: "bool option"

record usage_stats =
  total_token_count :: "int option"

record live_server_message =
  data :: "bytes option"
  server_content :: "live_server_content option"
  usage_metadata :: "usage_stats option"

text \<open>\<open>_send_to_client\<close>: the callback is called when it is set. The result lists the
  calls of the callback: the websocket the closure captured and the message passed.
  The callback (\<open>send_to_client\<close> of the server, below) catches every exception, so a call
  never stops the caller.\<close>

definition send_to_client_cb :: "gemini_live_client \<Rightarrow> message \<Rightarrow> (ws \<times> message) list" where
  "send_to_client_cb g m = (case message_callback g of None \<Rightarrow> [] | Some w \<Rightarrow> [(w, m)])"

definition opt_int :: "int option \<Rightarrow> json" where
  "opt_int v = (case v of None \<Rightarrow> JNull | Some n \<Rightarrow> JInt n)"

definition handle_gemini_response :: "gemini_live_client \<Rightarrow> live_server_message \<Rightarrow> (ws \<times> message) list" where
  "handle_gemini_response g r =
     (case data r of
        None \<Rightarrow> []
      | Some b \<Rightarrow>
          send_to_client_cb g
            [(''type'', JStr ''audio_data''), (''data'', JStr (b64encode b)),
             (''mime_type'', JStr ''audio/pcm;rate=24000'')]) @
     (case server_content r of
        None \<Rightarrow> []
      | Some sc \<Rightarrow>
          if turn_complete sc = Some True
          then send_to_client_cb g [(''type'', JStr ''ai_stopped_speaking'')] else []) @
     (case server_content r of
        None \<Rightarrow> []
      | Some sc \<Rightarrow>
          if interrupted sc = Some True
          then send_to_client_cb g [(''type'', JStr ''generation_interrupted'')] else []) @
     (case usage_metadata r of
        None \<Rightarrow> []
      | Some u \<Rightarrow>
          send_to_client_cb g
            [(''type'', JStr ''usage_metadata''), (''total_tokens'', opt_int (total_token_count u))])"

text \<open>\<open>_listen_for_messages\<close>: the messages \<open>session.receive()\<close> delivers before it ends,
  and how it ends. An exception marks the client as not connected; nothing else is done.\<close>

datatype stream_end = StreamExhausted | StreamRaises

definition listen_for_messages ::
  "gemini_live_client \<Rightarrow> live_server_message list \<Rightarrow> stream_end \<Rightarrow> gemini_live_client \<times> (ws \<times> message) list" where
  "listen_for_messages g rs fin =
     (if session g = None then (g, [])
      else
        (let cbs = concat (map (handle_gemini_response g) rs) in
         case fin of
           StreamExhausted \<Rightarrow> (g, cbs)
         | StreamRaises \<Rightarrow> (g\<lparr>is_connected := False\<rparr>, cbs)))"

definition send_audio :: "env \<Rightarrow> gemini_live_client \<Rightarrow> bytes \<Rightarrow> json \<Rightarrow> bool \<times> sdk_call list" where
  "send_audio e g audio_data mime_type =
     (if session g = None \<or> \<not> is_connected g then (False, [])
      else
        (case send_realtime_input e audio_data mime_type of
           BuildRaises \<Rightarrow> (False, [])
         | CallRaises \<Rightarrow> (False, [SendRealtimeInput audio_data mime_type])
         | CallReturns \<Rightarrow> (True, [SendRealtimeInput audio_data mime_type])))"

definition send_text :: "env \<Rightarrow> gemini_live_client \<Rightarrow> json \<Rightarrow> bool \<times> sdk_call list" where
  "send_text e g text =
     (if session g = None \<or> \<not> is_connected g then (False, [])
      else
        (case send_client_content e text of
           BuildRaises \<Rightarrow> (False, [])
         | CallRaises \<Rightarrow> (False, [SendClientContent text])
         | CallReturns \<Rightarrow> (True, [SendClientContent text])))"

text \<open>\<open>disconnect\<close>: \<open>self.session = None\<close> comes after the awaited \<open>__aexit__\<close>, inside the
  \<open>try\<close>; when \<open>__aexit__\<close> raises, the handle stays.\<close>

definition disconnect :: "env \<Rightarrow> gemini_live_client \<Rightarrow> gemini_live_client \<times> sdk_call list" where
  "disconnect e g =
     (let g1 = g\<lparr>is_connected := False\<rparr> in
      case session g1 of
        None \<Rightarrow> (g1, [])
      | Some h \<Rightarrow>
          if session_exit_raises e then (g1, [SessionExit])
          else (g1\<lparr>session := None\<rparr>, [SessionExit]))"

section \<open>VoiceAIWebSocketServer\<close>

text \<open>
  What the process does is recorded in a trace: each \<open>websocket.send\<close> attempted (with the
  message before \<open>json.dumps\<close>), each method called on a \<open>GeminiLiveClient\<close>, each call that
  reached the SDK. \<open>heap\<close> holds the \<open>GeminiLiveClient\<close> objects by address; \<open>next_cid\<close> is
  the address the next object gets.
\<close>

datatype adapter_call = Connect | SendAudio bytes json | SendText json | Disconnect

datatype event =
    WsSend ws message
  | Adapter cid adapter_call
  | Sdk cid sdk_call

record runtime =
  heap :: "cid \<Rightarrow> gemini_live_client"
  next_cid :: cid
  trace :: "event list"

record server = runtime +
  gemini_api_key :: string
  clients :: "ws \<rightharpoonup> cid"
  active_connections :: "ws set"

definition call_events :: "cid \<Rightarrow> adapter_call \<Rightarrow> sdk_call list \<Rightarrow> event list" where
  "call_events c a calls = Adapter c a # map (Sdk c) calls"

definition server_init :: "string \<Rightarrow> server" where
  "server_init key =
     \<lparr>heap = (\<lambda>c. gemini_live_client_init []), next_cid = 0, trace = [],
      gemini_api_key = key, clients = Map.empty, active_connections = {}\<rparr>"

definition send_to_client :: "ws \<Rightarrow> message \<Rightarrow> server \<Rightarrow> server" where
  "send_to_client w m s =
     (if w \<in> active_connections s then s\<lparr>trace := trace s @ [WsSend w m]\<rparr> else s)"

definition register_client :: "env \<Rightarrow> ws \<Rightarrow> server \<Rightarrow> server" where
  "register_client e w s =
     (let c = next_cid s;
          s1 = s\<lparr>active_connections := insert w (active_connections s)\<rparr>;
          s2 = s1\<lparr>heap := (heap s1)(c := gemini_live_client_init (gemini_api_key s1)),
                  next_cid := Suc c,
                  clients := (clients s1)(w \<mapsto> c)\<rparr>;
          (success, g, calls) = connect e w (heap s2 c);
          s3 = s2\<lparr>heap := (heap s2)(c := g), trace := trace s2 @ call_events c Connect calls\<rparr>
      in if success
         then send_to_client w
                [(''type'', JStr ''connection_established''), (''message'', JStr msg_connected)] s3
         else send_to_client w (error_frame msg_connect_failed) s3)"

definition unregister_client :: "env \<Rightarrow> ws \<Rightarrow> server \<Rightarrow> server" where
  "unregister_client e w s =
     (let s1 = s\<lparr>active_connections := active_connections s - {w}\<rparr> in
      case clients s1 w of
        None \<Rightarrow> s1
      | Some c \<Rightarrow>
          (let (g, calls) = disconnect e (heap s1 c) in
           s1\<lparr>heap := (heap s1)(c := g),
              trace := trace s1 @ call_events c Disconnect calls,
              clients := (clients s1)(w := None)\<rparr>))"

definition handle_client_message :: "env \<Rightarrow> ws \<Rightarrow> string \<Rightarrow> server \<Rightarrow> server" where
  "handle_client_message e w raw s =
     (case json_loads e raw of
        Inl JSONDecodeError \<Rightarrow> send_to_client w (error_frame msg_invalid_json) s
      | Inl (OtherException txt) \<Rightarrow> send_to_client w (error_frame (msg_processing @ txt)) s
      | Inr (JObj d) \<Rightarrow>
          (let message_type = dict_get d ''type'' in
           case clients s w of
             None \<Rightarrow> send_to_client w (error_frame msg_no_session) s
           | Some c \<Rightarrow>
               if message_type = JStr ''audio_data'' then
                 (let audio_data_b64 = dict_get d ''data'';
                      mime_type = dict_get_default d ''mime_type'' default_mime_type
                  in if truthy audio_data_b64 then
                       (case b64decode e audio_data_b64 of
                          None \<Rightarrow> send_to_client w (error_frame msg_audio_decode) s
                        | Some audio_data \<Rightarrow>
                            (let (success, calls) = send_audio e (heap s c) audio_data mime_type;
                                 s1 = s\<lparr>trace := trace s @
                                          call_events c (SendAudio audio_data mime_type) calls\<rparr>
                             in if success then s1
                                else send_to_client w (error_frame msg_audio_failed) s1))
                     else s)
               else if message_type = JStr ''text_message'' then
                 (let text = dict_get d ''text'' in
                  if truthy text then
                    (let (success, calls) = send_text e (heap s c) text;
                         s1 = s\<lparr>trace := trace s @ call_events c (SendText text) calls\<rparr>
                     in if success then s1
                        else send_to_client w (error_frame msg_text_failed) s1)
                  else s)
               else if message_type = JStr ''user_speaking_started'' then
                 send_to_client w [(''type'', JStr ''user_speaking_acknowledged'')] s
               else if message_type = JStr ''user_speaking_stopped'' then
                 send_to_client w [(''type'', JStr ''user_speaking_ended_acknowledged'')] s
               else if message_type = JStr ''ping'' then
                 send_to_client w [(''type'', JStr ''pong'')] s
               else
                 send_to_client w (error_frame (msg_unknown_type @ py_str e message_type)) s)
      | Inr v \<Rightarrow> send_to_client w (error_frame (msg_processing @ attribute_error v ''get'')) s)"

text \<open>The task started by \<open>connect\<close> for the client at address \<open>c\<close>, run in the server: the
  callback calls it makes are \<open>send_to_client\<close> calls.\<close>

definition run_callbacks :: "(ws \<times> message) list \<Rightarrow> server \<Rightarrow> server" where
  "run_callbacks cbs s = foldl (\<lambda>s' (w, m). send_to_client w m s') s cbs"

definition listener_task :: "cid \<Rightarrow> live_server_message list \<Rightarrow> stream_end \<Rightarrow> server \<Rightarrow> server" where
  "listener_task c rs fin s =
     (let (g, cbs) = listen_for_messages (heap s c) rs fin in
      run_callbacks cbs (s\<lparr>heap := (heap s)(c := g)\<rparr>))"

section \<open>ConnectionManager of the integrated server\<close>

text \<open>In \<open>main_integrated.py\<close> one module-level dict, \<open>active_connections\<close>, is both the
  table of clients and the set of open connections.\<close>

record manager = runtime +
  manager_gemini_api_key :: string
  active_connections_dict :: "ws \<rightharpoonup> cid"

definition manager_send_to_client :: "ws \<Rightarrow> message \<Rightarrow> manager \<Rightarrow> manager" where
  "manager_send_to_client w m s =
     (if w \<in> dom (active_connections_dict s) then s\<lparr>trace := trace s @ [WsSend w m]\<rparr> else s)"

text \<open>\<open>ConnectionManager.connect\<close> and \<open>disconnect\<close>; \<open>websocket.accept()\<close> is taken to succeed,
  and the API key to be present in the process environment.\<close>

definition manager_init :: "string \<Rightarrow> manager" where
  "manager_init key =
     \<lparr>heap = (\<lambda>c. gemini_live_client_init []), next_cid = 0, trace = [],
      manager_gemini_api_key = key, active_connections_dict = Map.empty\<rparr>"

definition manager_connect :: "env \<Rightarrow> ws \<Rightarrow> manager \<Rightarrow> manager" where
  "manager_connect e w s =
     (let c = next_cid s;
          s1 = s\<lparr>heap := (heap s)(c := gemini_live_client_init (manager_gemini_api_key s)),
                 next_cid := Suc c,
                 active_connections_dict := (active_connections_dict s)(w \<mapsto> c)\<rparr>;
          (success, g, calls) = connect e w (heap s1 c);
          s2 = s1\<lparr>heap := (heap s1)(c := g), trace := trace s1 @ call_events c Connect calls\<rparr>
      in if success
         then manager_send_to_client w
                [(''type'', JStr ''connection_established''), (''message'', JStr msg_connected)] s2
         else manager_send_to_client w (error_frame msg_connect_failed) s2)"

definition manager_disconnect :: "env \<Rightarrow> ws \<Rightarrow> manager \<Rightarrow> manager" where
  "manager_disconnect e w s =
     (case active_connections_dict s w of
        None \<Rightarrow> s
      | Some c \<Rightarrow>
          (let (g, calls) = disconnect e (heap s c) in
           s\<lparr>heap := (heap s)(c := g),
             trace := trace s @ call_events c Disconnect calls,
             active_connections_dict := (active_connections_dict s)(w := None)\<rparr>))"

definition handle_message :: "env \<Rightarrow> ws \<Rightarrow> string \<Rightarrow> manager \<Rightarrow> manager" where
  "handle_message e w raw s =
     (case json_loads e raw of
        Inl JSONDecodeError \<Rightarrow> manager_send_to_client w (error_frame msg_invalid_json) s
      | Inl (OtherException txt) \<Rightarrow>
          manager_send_to_client w (error_frame (msg_processing @ txt)) s
      | Inr (JObj d) \<Rightarrow>
          (let message_type = dict_get d ''type'' in
           case active_connections_dict s w of
             None \<Rightarrow> manager_send_to_client w (error_frame msg_no_session) s
           | Some c \<Rightarrow>
               if message_type = JStr ''audio_data'' then
                 (let audio_data_b64 = dict_get d ''data'';
                      mime_type = dict_get_default d ''mime_type'' default_mime_type
                  in if truthy audio_data_b64 then
                       (case b64decode e audio_data_b64 of
                          None \<Rightarrow> manager_send_to_client w (error_frame msg_audio_decode) s
                        | Some audio_data \<Rightarrow>
                            (let (success, calls) = send_audio e (heap s c) audio_data mime_type;
                                 s1 = s\<lparr>trace := trace s @
                                          call_events c (SendAudio audio_data mime_type) calls\<rparr>
                             in if success then s1
                                else manager_send_to_client w (error_frame msg_audio_failed) s1))
                     else s)
               else if message_type = JStr ''text_message'' then
                 (let text = dict_get d ''text'' in
                  if truthy text then
                    (let (success, calls) = send_text e (heap s c) text;
                         s1 = s\<lparr>trace := trace s @ call_events c (SendText text) calls\<rparr>
                     in if success then s1
                        else manager_send_to_client w (error_frame msg_text_failed) s1)
                  else s)
               else if message_type = JStr ''user_speaking_started'' then
                 manager_send_to_client w [(''type'', JStr ''user_speaking_acknowledged'')] s
               else if message_type = JStr ''user_speaking_stopped'' then
                 manager_send_to_client w [(''type'', JStr ''user_speaking_ended_acknowledged'')] s
               else if message_type = JStr ''ping'' then
                 manager_send_to_client w [(''type'', JStr ''pong'')] s
               else
                 manager_send_to_client w
                   (error_frame (msg_unknown_type @ py_str e message_type)) s)
      | Inr v \<Rightarrow>
          manager_send_to_client w (error_frame (msg_processing @ attribute_error v ''get'')) s)"

section \<open>Reading a trace\<close>

text \<open>The method calls made on \<open>GeminiLiveClient\<close> objects, the calls that reached the SDK,
  and the messages sent to websockets, each in trace order.\<close>

fun adapter_calls :: "event list \<Rightarrow> (cid \<times> adapter_call) list" where
  "adapter_calls [] = []"
| "adapter_calls (Adapter c a # es) = (c, a) # adapter_calls es"
| "adapter_calls (ev # es) = adapter_calls es"

fun sdk_calls :: "event list \<Rightarrow> (cid \<times> sdk_call) list" where
  "sdk_calls [] = []"
| "sdk_calls (Sdk c k # es) = (c, k) # sdk_calls es"
| "sdk_calls (ev # es) = sdk_calls es"

fun ws_sends :: "event list \<Rightarrow> (ws \<times> message) list" where
  "ws_sends [] = []"
| "ws_sends (WsSend w m # es) = (w, m) # ws_sends es"
| "ws_sends (ev # es) = ws_sends es"

definition msg_type :: "message \<Rightarrow> json" where
  "msg_type m = dict_get m ''type''"

text \<open>The states the server reaches keep one \<open>GeminiLiveClient\<close> per registered websocket:
  finitely many open connections, every registered websocket is open, no object is under
  two keys, every registered object is already allocated, and its callback is the closure
  over the websocket it is registered for.\<close>

definition wf_server :: "server \<Rightarrow> bool" where
  "wf_server s \<longleftrightarrow>
     finite (active_connections s) \<and>
     dom (clients s) \<subseteq> active_connections s \<and>
     inj_on (clients s) (dom (clients s)) \<and>
     (\<forall>w c. clients s w = Some c \<longrightarrow>
        c < next_cid s \<and> message_callback (heap s c) = Some w)"

text \<open>The states the server reaches from its initial state, each operation run to its end
  (what other tasks do while one is suspended at an \<open>await\<close> is not modelled).\<close>

inductive reachable :: "server \<Rightarrow> bool" where
  init: "reachable (server_init key)"
| register: "reachable s \<Longrightarrow> reachable (register_client e w s)"
| message: "reachable s \<Longrightarrow> reachable (handle_client_message e w raw s)"
| unregister: "reachable s \<Longrightarrow> reachable (unregister_client e w s)"
| listener: "reachable s \<Longrightarrow> reachable (listener_task c rs fin s)"

text \<open>The adapter states of the specification, read off the object: \<open>Streaming\<close> is a live
  session that is marked connected, \<open>Ended\<close> a closed one whose handle is cleared.\<close>

definition streaming :: "gemini_live_client \<Rightarrow> bool" where
  "streaming g \<longleftrightarrow> session g \<noteq> None \<and> is_connected g"

definition ended :: "gemini_live_client \<Rightarrow> bool" where
  "ended g \<longleftrightarrow> session g = None \<and> \<not> is_connected g"

text \<open>The facets of a backend message, in the order the specification fixes, and whether a
  message carries the facet that is reported under a given type.\<close>

definition facet_order :: "string list" where
  "facet_order = [''audio_data'', ''ai_stopped_speaking'', ''generation_interrupted'', ''usage_metadata'']"

definition facet_present :: "live_server_message \<Rightarrow> string \<Rightarrow> bool" where
  "facet_present r t \<longleftrightarrow>
     (t = ''audio_data'' \<and> data r \<noteq> None) \<or>
     (t = ''ai_stopped_speaking'' \<and>
        (case server_content r of None \<Rightarrow> False | Some sc \<Rightarrow> turn_complete sc = Some True)) \<or>
     (t = ''generation_interrupted'' \<and>
        (case server_content r of None \<Rightarrow> False | Some sc \<Rightarrow> interrupted sc = Some True)) \<or>
     (t = ''usage_metadata'' \<and> usage_metadata r \<noteq> None)"

text \<open>The message that reports a facet, as the specification's wire-protocol table lists its
  fields: audio as base64 text with the MIME type of the backend's audio, usage as the
  total token count.\<close>

definition facet_message :: "live_server_message \<Rightarrow> string \<Rightarrow> message" where
  "facet_message r t =
     (if t = ''audio_data'' then
        [(''type'', JStr ''audio_data''),
         (''data'', JStr (case data r of None \<Rightarrow> [] | Some b \<Rightarrow> b64encode b)),
         (''mime_type'', JStr ''audio/pcm;rate=24000'')]
      else if t = ''usage_metadata'' then
        [(''type'', JStr ''usage_metadata''),
         (''total_tokens'',
            (case usage_metadata r of None \<Rightarrow> JNull | Some u \<Rightarrow> opt_int (total_token_count u)))]
      else [(''type'', JStr t)])"

text \<open>The server-to-client frame types of the specification's wire-protocol table.\<close>

definition spec_outbound_types :: "string list" where
  "spec_outbound_types =
     [''connection_established'', ''audio_data'', ''ai_stopped_speaking'',
      ''generation_interrupted'', ''usage_metadata'', ''pong'', ''error'']"

section \<open>Sample environments and states\<close>

text \<open>A parser table for a few frames, a decoder table for two payloads, and an SDK whose
  calls all return; variants in which opening or closing the session raises.\<close>

text \<open>The text of the \<open>UnicodeDecodeError\<close> that \<open>json.loads\<close> raises on the one-byte binary
  frame \<open>0xFF\<close>.\<close>

definition utf8_decode_error :: string where
  "utf8_decode_error =
     [CHR 0x27] @ ''utf-8'' @ [CHR 0x27] @
     '' codec can'' @ [CHR 0x27] @ ''t decode byte 0xff in position 0: invalid start byte''"

definition sample_loads :: "string \<Rightarrow> py_exception + json" where
  \<open>sample_loads raw =
     (if raw = [CHR 0xFF] then Inl (OtherException utf8_decode_error)
      else if raw = ''{"type": "audio_data", "data": "AQID", "mime_type": "audio/pcm;rate=16000"}''
      then Inr (JObj [(''type'', JStr ''audio_data''), (''data'', JStr ''AQID''),
                      (''mime_type'', JStr ''audio/pcm;rate=16000'')])
      else if raw = ''{"type": "audio_data", "data": "", "mime_type": "audio/pcm;rate=16000"}''
      then Inr (JObj [(''type'', JStr ''audio_data''), (''data'', JStr []),
                      (''mime_type'', JStr ''audio/pcm;rate=16000'')])
      else if raw = ''{"type": "audio_data"}''
      then Inr (JObj [(''type'', JStr ''audio_data'')])
      else if raw = ''{"type": "text_message"}''
      then Inr (JObj [(''type'', JStr ''text_message'')])
      else if raw = ''{"type": "user_speaking_started"}''
      then Inr (JObj [(''type'', JStr ''user_speaking_started'')])
      else if raw = ''{"type": "user_speaking_stopped"}''
      then Inr (JObj [(''type'', JStr ''user_speaking_stopped'')])
      else Inl JSONDecodeError)\<close>

definition sample_env :: env where
  "sample_env =
     \<lparr>json_loads = sample_loads,
      b64decode = (\<lambda>v. if v = JStr ''AQID'' then Some [1, 2, 3]
                        else if v = JStr [] then Some [] else None),
      py_str = (\<lambda>v. case v of JStr t \<Rightarrow> t | _ \<Rightarrow> ''None''),
      live_connect = Entered,
      send_realtime_input = (\<lambda>b m. CallReturns),
      send_client_content = (\<lambda>t. CallReturns),
      session_exit_raises = False\<rparr>"

definition connect_failing_env :: env where
  "connect_failing_env = sample_env\<lparr>live_connect := EnterRaises\<rparr>"

definition exit_raising_env :: env where
  "exit_raising_env = sample_env\<lparr>session_exit_raises := True\<rparr>"

definition one_client :: server where
  "one_client = register_client sample_env 1 (server_init ''key'')"

definition two_clients :: server where
  "two_clients = register_client sample_env 2 one_client"

definition connected_client :: gemini_live_client where
  "connected_client =
     (gemini_live_client_init ''key'')
       \<lparr>session := Some AsyncSession, is_connected := True, message_callback := Some 1\<rparr>"

definition one_manager_client :: manager where
  "one_manager_client = manager_connect sample_env 1 (manager_init ''key'')"

definition audio_chunk :: live_server_message where
  "audio_chunk = \<lparr>data = Some [1, 2, 3], server_content = None, usage_metadata = None\<rparr>"

definition turn_and_usage :: live_server_message where
  "turn_and_usage =
     \<lparr>data = None,
      server_content = Some \<lparr>turn_complete = Some True, interrupted = None\<rparr>,
      usage_metadata = Some \<lparr>total_token_count = Some 42\<rparr>\<rparr>"

section \<open>Facts about traces and the sample states\<close>

lemmas sample_defs =
  sample_env_def sample_loads_def connect_failing_env_def exit_raising_env_def

lemma adapter_calls_append: "adapter_calls (xs @ ys) = adapter_calls xs @ adapter_calls ys"
  by (induction xs rule: adapter_calls.induct) simp_all

lemma sdk_calls_append: "sdk_calls (xs @ ys) = sdk_calls xs @ sdk_calls ys"
  by (induction xs rule: sdk_calls.induct) simp_all

lemma ws_sends_append: "ws_sends (xs @ ys) = ws_sends xs @ ws_sends ys"
  by (induction xs rule: ws_sends.induct) simp_all

lemma adapter_calls_Sdk: "adapter_calls (map (Sdk c) ks) = []"
  by (induction ks) simp_all

lemma sdk_calls_Sdk: "sdk_calls (map (Sdk c) ks) = map (Pair c) ks"
  by (induction ks) simp_all

lemma ws_sends_Sdk: "ws_sends (map (Sdk c) ks) = []"
  by (induction ks) simp_all

lemma adapter_calls_call_events: "adapter_calls (call_events c a ks) = [(c, a)]"
  by (simp add: call_events_def adapter_calls_Sdk)

lemma sdk_calls_call_events: "sdk_calls (call_events c a ks) = map (Pair c) ks"
  by (simp add: call_events_def sdk_calls_Sdk)

lemma ws_sends_call_events: "ws_sends (call_events c a ks) = []"
  by (simp add: call_events_def ws_sends_Sdk)

lemma one_client_eval:
  "clients one_client 1 = Some 0 \<and> active_connections one_client = {1} \<and>
   next_cid one_client = 1 \<and> heap one_client 0 = connected_client \<and>
   trace one_client =
     [Adapter 0 Connect, Sdk 0 LiveConnect, Sdk 0 SessionEnter,
      WsSend 1 [(''type'', JStr ''connection_established''), (''message'', JStr msg_connected)]]"
  by (simp add: one_client_def register_client_def server_init_def connect_def sample_defs
      Let_def send_to_client_def call_events_def connected_client_def
      gemini_live_client_init_def)

lemma one_manager_client_eval:
  "active_connections_dict one_manager_client 1 = Some 0 \<and>
   heap one_manager_client 0 = connected_client \<and>
   trace one_manager_client =
     [Adapter 0 Connect, Sdk 0 LiveConnect, Sdk 0 SessionEnter,
      WsSend 1 [(''type'', JStr ''connection_established''), (''message'', JStr msg_connected)]]"
  by (simp add: one_manager_client_def manager_connect_def manager_init_def connect_def
      sample_defs Let_def manager_send_to_client_def call_events_def connected_client_def
      gemini_live_client_init_def)

lemma send_to_client_fields [simp]:
  "heap (send_to_client w m s) = heap s"
  "next_cid (send_to_client w m s) = next_cid s"
  "clients (send_to_client w m s) = clients s"
  "active_connections (send_to_client w m s) = active_connections s"
  "gemini_api_key (send_to_client w m s) = gemini_api_key s"
  by (simp_all add: send_to_client_def)

lemma send_to_client_trace:
  "trace (send_to_client w m s) = trace s @ (if w \<in> active_connections s then [WsSend w m] else [])"
  by (simp add: send_to_client_def)

lemma run_callbacks_Nil [simp]: "run_callbacks [] s = s"
  by (simp add: run_callbacks_def)

lemma run_callbacks_Cons [simp]:
  "run_callbacks ((w, m) # cbs) s = run_callbacks cbs (send_to_client w m s)"
  by (simp add: run_callbacks_def)

lemma run_callbacks_fields:
  "heap (run_callbacks cbs s) = heap s \<and> next_cid (run_callbacks cbs s) = next_cid s \<and>
   clients (run_callbacks cbs s) = clients s \<and>
   active_connections (run_callbacks cbs s) = active_connections s"
  by (induction cbs arbitrary: s) auto

lemma run_callbacks_trace:
  "trace (run_callbacks cbs s) =
     trace s @ map (\<lambda>(w, m). WsSend w m) (filter (\<lambda>(w, m). w \<in> active_connections s) cbs)"
proof (induction cbs arbitrary: s)
  case Nil
  then show ?case by simp
next
  case (Cons x cbs)
  obtain w m where x: "x = (w, m)" by (cases x)
  show ?case
    unfolding x by (simp add: Cons.IH send_to_client_trace)
qed

lemma ws_sends_WsSend: "ws_sends (map (\<lambda>(w, m). WsSend w m) xs) = xs"
  by (induction xs) auto

lemma adapter_calls_WsSend: "adapter_calls (map (\<lambda>(w, m). WsSend w m) xs) = []"
  by (induction xs) auto

lemma sdk_calls_WsSend: "sdk_calls (map (\<lambda>(w, m). WsSend w m) xs) = []"
  by (induction xs) auto

lemma cb_set: "message_callback g = Some w \<Longrightarrow> send_to_client_cb g m = [(w, m)]"
  by (simp add: send_to_client_cb_def)

lemma handle_gemini_response_dest:
  "message_callback g = Some w \<Longrightarrow> x \<in> set (handle_gemini_response g r) \<Longrightarrow> fst x = w"
  by (auto simp: handle_gemini_response_def cb_set split: option.splits if_splits)

lemma b64encode_nonempty: "X \<noteq> [] \<Longrightarrow> b64encode X \<noteq> []"
  by (cases X rule: b64encode.cases) simp_all

subsection \<open>What each operation leaves behind\<close>

text \<open>\<open>connect\<close> returns \<open>True\<close> exactly when the session was entered, and always leaves
  the callback set; no other method touches the callback.\<close>

lemma connect_result:
  "connect e w g = (ok, g', ks) \<Longrightarrow>
     ok = (live_connect e = Entered) \<and> message_callback g' = Some w \<and>
     is_connected g' = (live_connect e = Entered \<or> is_connected g)"
  by (auto simp: connect_def Let_def split: connect_outcome.splits)

lemma connect_callback: "message_callback (fst (snd (connect e w g))) = Some w"
  by (simp add: connect_def Let_def split: connect_outcome.splits)

lemma disconnect_callback: "message_callback (fst (disconnect e g)) = message_callback g"
  by (simp add: disconnect_def Let_def split: option.splits)

lemma listen_callback: "message_callback (fst (listen_for_messages g rs fin)) = message_callback g"
  by (simp add: listen_for_messages_def Let_def split: stream_end.splits)

lemma disconnect_result:
  "is_connected (fst (disconnect e g)) = False \<and>
   session (fst (disconnect e g)) = (if session_exit_raises e then session g else None) \<and>
   snd (disconnect e g) = (if session g = None then [] else [SessionExit])"
  by (simp add: disconnect_def Let_def split: option.splits)

lemma register_client_fields:
  "clients (register_client e w s) = (clients s)(w \<mapsto> next_cid s)"
  "active_connections (register_client e w s) = insert w (active_connections s)"
  "next_cid (register_client e w s) = Suc (next_cid s)"
  by (simp_all add: register_client_def Let_def split: prod.splits)

lemma register_client_heap:
  "heap (register_client e w s) =
     (heap s)(next_cid s :=
        fst (snd (connect e w (gemini_live_client_init (gemini_api_key s)))))"
  by (simp add: register_client_def Let_def split: prod.splits)

lemma unregister_client_fields:
  "clients (unregister_client e w s) = (clients s)(w := None)"
  "active_connections (unregister_client e w s) = active_connections s - {w}"
  "next_cid (unregister_client e w s) = next_cid s"
  by (auto simp: unregister_client_def Let_def split: prod.splits option.splits)

lemma unregister_client_heap:
  "heap (unregister_client e w s) =
     (case clients s w of
        None \<Rightarrow> heap s
      | Some c \<Rightarrow> (heap s)(c := fst (disconnect e (heap s c))))"
  by (simp add: unregister_client_def Let_def split: prod.splits option.splits)

lemma unregister_client_trace:
  "trace (unregister_client e w s) =
     (case clients s w of
        None \<Rightarrow> trace s
      | Some c \<Rightarrow> trace s @ call_events c Disconnect (snd (disconnect e (heap s c))))"
  by (simp add: unregister_client_def Let_def split: prod.splits option.splits)

lemma register_client_failed:
  assumes "live_connect e \<noteq> Entered"
  shows "trace (register_client e w s) =
           trace s @ call_events (next_cid s) Connect (snd (snd (connect e w (gemini_live_client_init (gemini_api_key s))))) @
             [WsSend w (error_frame msg_connect_failed)]"
    and "\<not> is_connected (heap (register_client e w s) (next_cid s))"
  using assms
  by (auto simp: register_client_def Let_def connect_def send_to_client_def
      gemini_live_client_init_def split: connect_outcome.splits)

lemma listener_task_fields:
  "clients (listener_task c rs fin s) = clients s"
  "active_connections (listener_task c rs fin s) = active_connections s"
  "next_cid (listener_task c rs fin s) = next_cid s"
  "heap (listener_task c rs fin s) = (heap s)(c := fst (listen_for_messages (heap s c) rs fin))"
  by (simp_all add: listener_task_def run_callbacks_fields split: prod.splits)

lemma listener_task_trace:
  "trace (listener_task c rs fin s) =
     trace s @ map (\<lambda>(w, m). WsSend w m)
       (filter (\<lambda>(w, m). w \<in> active_connections s) (snd (listen_for_messages (heap s c) rs fin)))"
  by (simp add: listener_task_def run_callbacks_trace split: prod.splits)

lemma listen_for_messages_calls:
  "snd (listen_for_messages g rs fin) =
     (if session g = None then [] else concat (map (handle_gemini_response g) rs))"
  by (simp add: listen_for_messages_def Let_def split: stream_end.splits)

lemma disconnect_ended: "ended g \<Longrightarrow> disconnect e g = (g, [])"
  by (simp add: ended_def disconnect_def Let_def)

lemma disconnect_ends:
  "session g = None \<or> \<not> session_exit_raises e \<Longrightarrow> ended (fst (disconnect e g))"
  by (auto simp: ended_def disconnect_def Let_def split: option.splits)

lemma unregister_client_again:
  "unregister_client e2 w (unregister_client e1 w s) = unregister_client e1 w s"
proof -
  let ?s = "unregister_client e1 w s"
  have "clients ?s w = None"
    by (simp add: unregister_client_fields)
  moreover have "active_connections ?s - {w} = active_connections ?s"
    by (auto simp: unregister_client_fields)
  ultimately show ?thesis
    by (simp add: unregister_client_def [of e2 w ?s] Let_def)
qed

lemma handle_client_message_fields:
  "clients (handle_client_message e w raw s) = clients s"
  "active_connections (handle_client_message e w raw s) = active_connections s"
  "next_cid (handle_client_message e w raw s) = next_cid s"
  "heap (handle_client_message e w raw s) = heap s"
  by (simp_all add: handle_client_message_def Let_def
      split: sum.splits py_exception.splits json.splits option.splits prod.splits)

subsection \<open>The registry invariant\<close>

text \<open>The initial state satisfies the invariant and no operation breaks it, so it holds in
  every reachable state.\<close>

lemma wf_serverD:
  assumes "wf_server s"
  shows "finite (active_connections s)"
    and "dom (clients s) \<subseteq> active_connections s"
    and "inj_on (clients s) (dom (clients s))"
    and "\<And>x c. clients s x = Some c \<Longrightarrow> c < next_cid s"
    and "\<And>x c. clients s x = Some c \<Longrightarrow> message_callback (heap s c) = Some x"
  using assms unfolding wf_server_def by blast+

lemma wf_server_init: "wf_server (server_init key)"
  by (simp add: wf_server_def server_init_def)

lemma wf_server_register:
  assumes "wf_server s"
  shows "wf_server (register_client e w s)"
proof -
  note wf = wf_serverD [OF assms]
  let ?n = "next_cid s"
  let ?g = "fst (snd (connect e w (gemini_live_client_init (gemini_api_key s))))"
  have fresh: "clients s x \<noteq> Some ?n" for x
    using wf(4) [of x ?n] by auto
  have inj': "inj_on ((clients s)(w \<mapsto> ?n)) (dom ((clients s)(w \<mapsto> ?n)))"
  proof (rule inj_onI)
    fix x y
    assume x: "x \<in> dom ((clients s)(w \<mapsto> ?n))"
      and y: "y \<in> dom ((clients s)(w \<mapsto> ?n))"
      and eq: "((clients s)(w \<mapsto> ?n)) x = ((clients s)(w \<mapsto> ?n)) y"
    show "x = y"
    proof (cases "x = w")
      case True
      then show ?thesis using eq fresh [of y] by (auto split: if_splits)
    next
      case xw: False
      show ?thesis
      proof (cases "y = w")
        case True
        then show ?thesis using eq fresh [of x] xw by (auto split: if_splits)
      next
        case False
        then have "clients s x = clients s y" "x \<in> dom (clients s)" "y \<in> dom (clients s)"
          using xw eq x y by auto
        then show ?thesis using wf(3) by (auto dest: inj_onD)
      qed
    qed
  qed
  have entries: "\<forall>x c. ((clients s)(w \<mapsto> ?n)) x = Some c \<longrightarrow>
      c < Suc ?n \<and> message_callback (((heap s)(?n := ?g)) c) = Some x"
  proof (intro allI impI)
    fix x c
    assume xc: "((clients s)(w \<mapsto> ?n)) x = Some c"
    show "c < Suc ?n \<and> message_callback (((heap s)(?n := ?g)) c) = Some x"
    proof (cases "x = w")
      case True
      then have "c = ?n" using xc by simp
      then show ?thesis using True by (simp add: connect_callback)
    next
      case False
      then have old: "clients s x = Some c" using xc by simp
      then have "c < ?n" by (rule wf(4))
      then show ?thesis using wf(5) [OF old] by simp
    qed
  qed
  have fin': "finite (insert w (active_connections s))"
    using wf(1) by simp
  have sub': "dom ((clients s)(w \<mapsto> ?n)) \<subseteq> insert w (active_connections s)"
    using wf(2) by auto
  show ?thesis
    unfolding wf_server_def register_client_fields register_client_heap
    using fin' sub' inj' entries by blast
qed

lemma wf_server_unregister:
  assumes "wf_server s"
  shows "wf_server (unregister_client e w s)"
proof -
  note wf = wf_serverD [OF assms]
  have inj': "inj_on ((clients s)(w := None)) (dom ((clients s)(w := None)))"
  proof (rule inj_onI)
    fix x y
    assume x: "x \<in> dom ((clients s)(w := None))" and y: "y \<in> dom ((clients s)(w := None))"
      and eq: "((clients s)(w := None)) x = ((clients s)(w := None)) y"
    then have "clients s x = clients s y" "x \<in> dom (clients s)" "y \<in> dom (clients s)"
      by (auto split: if_splits)
    then show "x = y" using wf(3) by (auto dest: inj_onD)
  qed
  have cb: "message_callback (heap (unregister_client e w s) c) = message_callback (heap s c)" for c
    by (simp add: unregister_client_heap disconnect_callback split: option.splits)
  have entries: "\<forall>x c. ((clients s)(w := None)) x = Some c \<longrightarrow>
      c < next_cid s \<and> message_callback (heap (unregister_client e w s) c) = Some x"
    using wf(4) wf(5) by (auto simp: cb split: if_splits)
  have fin': "finite (active_connections s - {w})"
    using wf(1) by simp
  have sub': "dom ((clients s)(w := None)) \<subseteq> active_connections s - {w}"
    using wf(2) by auto
  show ?thesis
    unfolding wf_server_def unregister_client_fields
    using fin' sub' inj' entries by blast
qed

lemma wf_server_message: "wf_server s \<Longrightarrow> wf_server (handle_client_message e w raw s)"
  unfolding wf_server_def handle_client_message_fields .

lemma wf_server_listener:
  assumes "wf_server s"
  shows "wf_server (listener_task c rs fin s)"
proof -
  note wf = wf_serverD [OF assms]
  have cb: "message_callback (heap (listener_task c rs fin s) c') = message_callback (heap s c')" for c'
    by (simp add: listener_task_fields listen_callback)
  have entries: "\<forall>x c'. clients s x = Some c' \<longrightarrow>
      c' < next_cid s \<and> message_callback (heap (listener_task c rs fin s) c') = Some x"
    using wf(4) wf(5) by (auto simp: cb)
  show ?thesis
    unfolding wf_server_def listener_task_fields(1,2,3)
    using wf(1) wf(2) wf(3) entries by blast
qed

lemma reachable_wf: "reachable s \<Longrightarrow> wf_server s"
  by (induction rule: reachable.induct)
    (simp_all add: wf_server_init wf_server_register wf_server_message wf_server_unregister
      wf_server_listener)

lemma reachable_two_clients: "reachable two_clients"
  unfolding two_clients_def one_client_def
  by (intro reachable.register reachable.init)

lemma wf_one_client: "wf_server one_client"
  unfolding one_client_def
  by (intro wf_server_register wf_server_init)

lemma wf_two_clients: "wf_server two_clients"
  unfolding two_clients_def one_client_def
  by (intro wf_server_register wf_server_init)

lemma two_clients_eval:
  "clients two_clients 1 = Some 0 \<and> clients two_clients 2 = Some 1 \<and>
   heap two_clients 0 = connected_client"
  using one_client_eval by (simp add: two_clients_def register_client_fields register_client_heap)

section \<open>Sending on an adapter that is not streaming\<close>

text \<open>
  C5. \<open>send_audio\<close> and \<open>send_text\<close> on a client that is not streaming (no session handle, or
  not marked connected; this covers a client never connected and one that has ended)
  return \<open>False\<close> and make no call on the remote session. Both methods catch every
  exception, so their result is always a truth value: nothing is raised into the caller.
\<close>

theorem send_not_streaming:
  "\<not> streaming g \<Longrightarrow> send_audio e g a m = (False, []) \<and> send_text e g t = (False, [])"
  by (auto simp: streaming_def send_audio_def send_text_def)

theorem send_not_streaming_witness:
  "\<not> streaming (gemini_live_client_init ''key'') \<and>
   send_audio sample_env (gemini_live_client_init ''key'') [1, 2, 3] default_mime_type = (False, []) \<and>
   send_text sample_env (gemini_live_client_init ''key'') (JStr ''hello'') = (False, [])"
proof -
  have idle: "\<not> streaming (gemini_live_client_init ''key'')"
    by (simp add: streaming_def gemini_live_client_init_def)
  show ?thesis
    using idle send_not_streaming [OF idle, of sample_env "[1, 2, 3]" default_mime_type "JStr ''hello''"]
    by simp
qed

section \<open>Frames that are not JSON\<close>

text \<open>
  C6, as stated, fails: not every frame that cannot be parsed raises \<open>JSONDecodeError\<close>.
  On the binary frame \<open>0xFF\<close> \<open>json.loads\<close> raises \<open>UnicodeDecodeError\<close>, which the handler
  catches in its generic \<open>except Exception\<close>: the reply is the processing-error message with
  the text of the exception, not the invalid-JSON message.
\<close>

theorem unparsable_frame_counterexample:
  "json_loads sample_env [CHR 0xFF] = Inl (OtherException utf8_decode_error) \<and>
   1 \<in> active_connections one_client \<and>
   ws_sends (trace (handle_client_message sample_env 1 [CHR 0xFF] one_client)) =
     ws_sends (trace one_client) @
       [(1, [(''type'', JStr ''error''),
             (''message'', JStr (msg_processing @ utf8_decode_error))])] \<and>
   msg_processing @ utf8_decode_error \<noteq> msg_invalid_json"
proof -
  have differ: "msg_processing @ utf8_decode_error \<noteq> msg_invalid_json"
    by (simp add: msg_processing_def msg_invalid_json_def)
  show ?thesis
    using one_client_eval differ
    by (simp add: handle_client_message_def send_to_client_def sample_defs error_frame_def
        ws_sends_append)
qed

text \<open>
  C6, amended. When \<open>json.loads\<close> raises on a frame of an open connection, the handler sends
  exactly one message to that websocket, of type \<open>error\<close> with a \<open>message\<close> field, and does
  nothing else: the registry, the set of open connections and every client object are as
  before, and no method of a client and no SDK call is made. The message is the fixed
  invalid-JSON text when the exception is \<open>JSONDecodeError\<close>, and the processing-error text
  followed by the text of the exception for any other exception.
\<close>

theorem unparsable_frame_reply:
  assumes "json_loads e raw = Inl x" and "w \<in> active_connections s"
  shows "handle_client_message e w raw s =
           s\<lparr>trace := trace s @
              [WsSend w [(''type'', JStr ''error''),
                         (''message'',
                            JStr (case x of
                                    JSONDecodeError \<Rightarrow> msg_invalid_json
                                  | OtherException txt \<Rightarrow> msg_processing @ txt))]]\<rparr> \<and>
         adapter_calls (trace (handle_client_message e w raw s)) = adapter_calls (trace s) \<and>
         sdk_calls (trace (handle_client_message e w raw s)) = sdk_calls (trace s)"
  using assms
  by (cases x)
    (simp_all add: handle_client_message_def send_to_client_def adapter_calls_append
      sdk_calls_append error_frame_def)

theorem unparsable_frame_reply_witness:
  "json_loads sample_env ''{not json'' = Inl JSONDecodeError \<and>
   1 \<in> active_connections one_client \<and>
   handle_client_message sample_env 1 ''{not json'' one_client =
     one_client\<lparr>trace := trace one_client @
       [WsSend 1 [(''type'', JStr ''error''), (''message'', JStr msg_invalid_json)]]\<rparr> \<and>
   handle_client_message sample_env 1 [CHR 0xFF] one_client =
     one_client\<lparr>trace := trace one_client @
       [WsSend 1 [(''type'', JStr ''error''),
                  (''message'', JStr (msg_processing @ utf8_decode_error))]]\<rparr>"
proof -
  have bad: "json_loads sample_env ''{not json'' = Inl JSONDecodeError"
    by (simp add: sample_defs)
  have bin: "json_loads sample_env [CHR 0xFF] = Inl (OtherException utf8_decode_error)"
    by (simp add: sample_defs)
  have on: "1 \<in> active_connections one_client"
    using one_client_eval by simp
  show ?thesis
    using bad on unparsable_frame_reply [OF bad on] unparsable_frame_reply [OF bin on]
    by simp
qed

section \<open>Audio frames\<close>

text \<open>
  C3, as stated, fails for an empty payload: the base64 text of no bytes is the empty
  string, \<open>if audio_data_b64:\<close> is false on it, and the frame is dropped without a call of
  \<open>send_audio\<close>.
\<close>

theorem empty_audio_counterexample:
  \<open>b64encode [] = [] \<and> b64decode sample_env (JStr (b64encode [])) = Some [] \<and>
   json_loads sample_env ''{"type": "audio_data", "data": "", "mime_type": "audio/pcm;rate=16000"}'' =
     Inr (JObj [(''type'', JStr ''audio_data''), (''data'', JStr (b64encode [])),
                (''mime_type'', JStr ''audio/pcm;rate=16000'')]) \<and>
   clients one_client 1 = Some 0 \<and> 1 \<in> active_connections one_client \<and>
   adapter_calls (trace (handle_client_message sample_env 1
      ''{"type": "audio_data", "data": "", "mime_type": "audio/pcm;rate=16000"}'' one_client)) =
     adapter_calls (trace one_client)\<close>
  using one_client_eval
  by (simp add: handle_client_message_def sample_defs dict_get_def dict_get_default_def)

text \<open>
  C3, amended. Take an \<open>audio_data\<close> frame arriving on a registered websocket.

  When its \<open>data\<close> is the base64 text of a non-empty byte string \<open>X\<close> (which the decoder maps
  back to \<open>X\<close>), exactly one method call is made on a client object: \<open>send_audio(X, M)\<close> on
  the object registered for that websocket, where \<open>M\<close> is the frame's \<open>mime_type\<close>, or
  \<open>audio/pcm;rate=16000\<close> when the frame has none. The only SDK calls are those of that one
  \<open>send_audio\<close>, on the same object; no client object and neither registry changes; the
  client is sent one \<open>error\<close> message when \<open>send_audio\<close> returns \<open>False\<close> and nothing
  otherwise.

  When its \<open>data\<close> is false in Python's sense (absent, \<open>null\<close>, \<open>false\<close>, \<open>0\<close>, \<open>0.0\<close>,
  \<open>-0.0\<close>, the empty string, list or object), the frame is dropped: no method call, no
  reply, the state is unchanged. When \<open>data\<close> is true but cannot be decoded, no method is
  called and one \<open>error\<close> message is sent.
\<close>

theorem audio_forwarded:
  assumes "json_loads e raw = Inr (JObj d)"
    and "dict_get d ''type'' = JStr ''audio_data''"
    and "clients s w = Some c"
  shows "(map_of d ''data'' = Some (JStr (b64encode X)) \<and> X \<noteq> [] \<and>
          b64decode e (JStr (b64encode X)) = Some X \<and>
          M = (case map_of d ''mime_type'' of
                 None \<Rightarrow> JStr ''audio/pcm;rate=16000'' | Some v \<Rightarrow> v) \<longrightarrow>
            adapter_calls (trace (handle_client_message e w raw s)) =
              adapter_calls (trace s) @ [(c, SendAudio X M)] \<and>
            sdk_calls (trace (handle_client_message e w raw s)) =
              sdk_calls (trace s) @ map (Pair c) (snd (send_audio e (heap s c) X M)) \<and>
            ws_sends (trace (handle_client_message e w raw s)) =
              ws_sends (trace s) @
                (if fst (send_audio e (heap s c) X M) \<or> w \<notin> active_connections s then []
                 else [(w, [(''type'', JStr ''error''), (''message'', JStr msg_audio_failed)])]) \<and>
            heap (handle_client_message e w raw s) = heap s \<and>
            clients (handle_client_message e w raw s) = clients s \<and>
            active_connections (handle_client_message e w raw s) = active_connections s) \<and>
         (dict_get d ''data'' \<in>
            {JNull, JBool False, JInt 0, JFloat 0, JFloat 0x8000000000000000,
             JStr [], JArr [], JObj []} \<longrightarrow>
            handle_client_message e w raw s = s) \<and>
         (\<not> truthy (dict_get d ''data'') \<longrightarrow> handle_client_message e w raw s = s) \<and>
         (map_of d ''data'' = None \<longrightarrow> handle_client_message e w raw s = s) \<and>
         (truthy (dict_get d ''data'') \<and> b64decode e (dict_get d ''data'') = None \<longrightarrow>
            handle_client_message e w raw s =
              (if w \<in> active_connections s
               then s\<lparr>trace := trace s @
                      [WsSend w [(''type'', JStr ''error''),
                                 (''message'', JStr msg_audio_decode)]]\<rparr>
               else s))"
proof -
  have fwd: "adapter_calls (trace (handle_client_message e w raw s)) =
              adapter_calls (trace s) @ [(c, SendAudio X M)] \<and>
            sdk_calls (trace (handle_client_message e w raw s)) =
              sdk_calls (trace s) @ map (Pair c) (snd (send_audio e (heap s c) X M)) \<and>
            ws_sends (trace (handle_client_message e w raw s)) =
              ws_sends (trace s) @
                (if fst (send_audio e (heap s c) X M) \<or> w \<notin> active_connections s then []
                 else [(w, [(''type'', JStr ''error''), (''message'', JStr msg_audio_failed)])]) \<and>
            heap (handle_client_message e w raw s) = heap s \<and>
            clients (handle_client_message e w raw s) = clients s \<and>
            active_connections (handle_client_message e w raw s) = active_connections s"
    if "map_of d ''data'' = Some (JStr (b64encode X))" and "X \<noteq> []"
      and "b64decode e (JStr (b64encode X)) = Some X"
      and "M = (case map_of d ''mime_type'' of
                 None \<Rightarrow> JStr ''audio/pcm;rate=16000'' | Some v \<Rightarrow> v)"
    using assms that b64encode_nonempty [of X]
    by (simp add: handle_client_message_def dict_get_def dict_get_default_def
        default_mime_type_def Let_def send_to_client_def error_frame_def
        adapter_calls_append sdk_calls_append ws_sends_append adapter_calls_call_events
        sdk_calls_call_events ws_sends_call_events split: prod.splits)
  have falsy: "handle_client_message e w raw s = s" if "\<not> truthy (dict_get d ''data'')"
    using assms that by (simp add: handle_client_message_def)
  have listed: "handle_client_message e w raw s = s"
    if "dict_get d ''data'' \<in>
          {JNull, JBool False, JInt 0, JFloat 0, JFloat 0x8000000000000000,
           JStr [], JArr [], JObj []}"
    using that by (intro falsy) auto
  have absent: "handle_client_message e w raw s = s" if "map_of d ''data'' = None"
    using that by (intro falsy) (simp add: dict_get_def)
  have undecodable: "handle_client_message e w raw s =
              (if w \<in> active_connections s
               then s\<lparr>trace := trace s @
                      [WsSend w [(''type'', JStr ''error''),
                                 (''message'', JStr msg_audio_decode)]]\<rparr>
               else s)"
    if "truthy (dict_get d ''data'')" and "b64decode e (dict_get d ''data'') = None"
    using assms that
    by (simp add: handle_client_message_def send_to_client_def error_frame_def)
  show ?thesis
    using fwd falsy listed absent undecodable by blast
qed

theorem audio_forwarded_witness:
  \<open>adapter_calls (trace (handle_client_message sample_env 1
      ''{"type": "audio_data", "data": "AQID", "mime_type": "audio/pcm;rate=16000"}'' one_client)) =
     [(0, Connect), (0, SendAudio [1, 2, 3] (JStr ''audio/pcm;rate=16000''))] \<and>
   sdk_calls (trace (handle_client_message sample_env 1
      ''{"type": "audio_data", "data": "AQID", "mime_type": "audio/pcm;rate=16000"}'' one_client)) =
     [(0, LiveConnect), (0, SessionEnter),
      (0, SendRealtimeInput [1, 2, 3] (JStr ''audio/pcm;rate=16000''))] \<and>
   handle_client_message sample_env 1
      ''{"type": "audio_data", "data": "", "mime_type": "audio/pcm;rate=16000"}'' one_client =
     one_client \<and>
   handle_client_message sample_env 1 ''{"type": "audio_data"}'' one_client = one_client\<close>
proof -
  let ?full = "[(''type'', JStr ''audio_data''), (''data'', JStr ''AQID''),
             (''mime_type'', JStr ''audio/pcm;rate=16000'')]"
  let ?empty = "[(''type'', JStr ''audio_data''), (''data'', JStr []),
             (''mime_type'', JStr ''audio/pcm;rate=16000'')]"
  let ?bare = "[(''type'', JStr ''audio_data'')]"
  have enc: "b64encode [1, 2, 3] = ''AQID''"
    by (simp add: b64_char_def b64_alphabet_def)
  have l: \<open>json_loads sample_env
      ''{"type": "audio_data", "data": "AQID", "mime_type": "audio/pcm;rate=16000"}'' = Inr (JObj ?full)\<close>
    by (simp add: sample_defs)
  have l0: \<open>json_loads sample_env
      ''{"type": "audio_data", "data": "", "mime_type": "audio/pcm;rate=16000"}'' = Inr (JObj ?empty)\<close>
    by (simp add: sample_defs)
  have l1: \<open>json_loads sample_env ''{"type": "audio_data"}'' = Inr (JObj ?bare)\<close>
    by (simp add: sample_defs)
  have ty: "dict_get ?full ''type'' = JStr ''audio_data''"
    and ty0: "dict_get ?empty ''type'' = JStr ''audio_data''"
    and ty1: "dict_get ?bare ''type'' = JStr ''audio_data''"
    by (simp_all add: dict_get_def)
  have da: "map_of ?full ''data'' = Some (JStr (b64encode [1, 2, 3]))"
    by (subst enc) simp
  have de: "b64decode sample_env (JStr (b64encode [1, 2, 3])) = Some [1, 2, 3]"
    by (subst enc) (simp add: sample_defs)
  have c: "clients one_client 1 = Some 0"
    using one_client_eval by simp
  have first: \<open>adapter_calls (trace (handle_client_message sample_env 1
      ''{"type": "audio_data", "data": "AQID", "mime_type": "audio/pcm;rate=16000"}'' one_client)) =
     [(0, Connect), (0, SendAudio [1, 2, 3] (JStr ''audio/pcm;rate=16000''))] \<and>
   sdk_calls (trace (handle_client_message sample_env 1
      ''{"type": "audio_data", "data": "AQID", "mime_type": "audio/pcm;rate=16000"}'' one_client)) =
     [(0, LiveConnect), (0, SessionEnter),
      (0, SendRealtimeInput [1, 2, 3] (JStr ''audio/pcm;rate=16000''))]\<close>
    using audio_forwarded [OF l ty c, of "[1, 2, 3]" "JStr ''audio/pcm;rate=16000''"]
      da de one_client_eval
    by (simp add: send_audio_def connected_client_def sample_defs)
  have second: \<open>handle_client_message sample_env 1
      ''{"type": "audio_data", "data": "", "mime_type": "audio/pcm;rate=16000"}'' one_client =
     one_client\<close>
    using audio_forwarded [OF l0 ty0 c] by (simp add: dict_get_def)
  have third: \<open>handle_client_message sample_env 1 ''{"type": "audio_data"}'' one_client = one_client\<close>
    using audio_forwarded [OF l1 ty1 c] by simp
  show ?thesis
    using first second third by simp
qed

section \<open>Backend messages\<close>

text \<open>
  C4. In a state that satisfies the registry invariant (every reachable state does), take
  the client object registered for websocket \<open>w\<close>. A backend message yields one callback
  call per facet it carries and none for an absent facet, in the order audio,
  turn-complete, interrupted, usage: the calls are the fixed list \<open>facet_order\<close> filtered by
  presence, each with the message of its facet, and each to \<open>w\<close>, the websocket the object
  is registered for. A message with only a turn-complete flag and usage stats yields
  \<open>ai_stopped_speaking\<close> then \<open>usage_metadata\<close>; one with only audio yields \<open>audio_data\<close>.
  The listening task of that object, over any sequence of backend messages and however
  the sequence ends, sends exactly these messages, in order, to \<open>w\<close> and to no other
  websocket, and calls no method of a client and nothing in the SDK; without a session
  handle it returns at once.
\<close>

theorem backend_facets:
  assumes "wf_server s" and "clients s w = Some c"
  shows "handle_gemini_response (heap s c) r =
           map (\<lambda>t. (w, facet_message r t)) (filter (facet_present r) facet_order) \<and>
         map (msg_type \<circ> snd) (handle_gemini_response (heap s c) r) =
           map JStr (filter (facet_present r) facet_order) \<and>
         map fst (handle_gemini_response (heap s c) r) =
           replicate (length (filter (facet_present r) facet_order)) w \<and>
         distinct facet_order \<and>
         (data r = None \<and> server_content r = Some sc \<and> turn_complete sc = Some True \<and>
          interrupted sc \<noteq> Some True \<and> usage_metadata r = Some u \<longrightarrow>
            handle_gemini_response (heap s c) r =
              [(w, [(''type'', JStr ''ai_stopped_speaking'')]),
               (w, [(''type'', JStr ''usage_metadata''),
                    (''total_tokens'', opt_int (total_token_count u))])]) \<and>
         (data r = Some b \<and> server_content r = None \<and> usage_metadata r = None \<longrightarrow>
            handle_gemini_response (heap s c) r =
              [(w, [(''type'', JStr ''audio_data''), (''data'', JStr (b64encode b)),
                    (''mime_type'', JStr ''audio/pcm;rate=24000'')])]) \<and>
         (session (heap s c) \<noteq> None \<longrightarrow>
            ws_sends (trace (listener_task c rs fin s)) =
              ws_sends (trace s) @ concat (map (handle_gemini_response (heap s c)) rs)) \<and>
         (session (heap s c) = None \<longrightarrow> trace (listener_task c rs fin s) = trace s) \<and>
         adapter_calls (trace (listener_task c rs fin s)) = adapter_calls (trace s) \<and>
         sdk_calls (trace (listener_task c rs fin s)) = sdk_calls (trace s)"
proof -
  let ?g = "heap s c"
  have cb: "message_callback ?g = Some w"
    using wf_serverD(5) [OF assms] .
  have act: "w \<in> active_connections s"
    using wf_serverD(2) [OF assms(1)] assms(2) by auto
  have calls: "handle_gemini_response ?g r' =
      map (\<lambda>t. (w, facet_message r' t)) (filter (facet_present r') facet_order)" for r'
    using cb
    by (simp add: handle_gemini_response_def cb_set facet_order_def facet_present_def
        facet_message_def split: option.splits)
  have types: "map (msg_type \<circ> snd) (handle_gemini_response ?g r) =
      map JStr (filter (facet_present r) facet_order)"
    using cb
    by (simp add: handle_gemini_response_def cb_set facet_order_def facet_present_def
        msg_type_def dict_get_def split: option.splits)
  have dests: "map fst (handle_gemini_response ?g r) =
      replicate (length (filter (facet_present r) facet_order)) w"
    using cb
    by (simp add: handle_gemini_response_def cb_set facet_order_def facet_present_def
        split: option.splits)
  have dist: "distinct facet_order"
    by (simp add: facet_order_def)
  have special: "data r = None \<and> server_content r = Some sc \<and> turn_complete sc = Some True \<and>
          interrupted sc \<noteq> Some True \<and> usage_metadata r = Some u \<longrightarrow>
            handle_gemini_response ?g r =
              [(w, [(''type'', JStr ''ai_stopped_speaking'')]),
               (w, [(''type'', JStr ''usage_metadata''),
                    (''total_tokens'', opt_int (total_token_count u))])]"
    using cb by (simp add: handle_gemini_response_def cb_set)
  have audio: "data r = Some b \<and> server_content r = None \<and> usage_metadata r = None \<longrightarrow>
            handle_gemini_response ?g r =
              [(w, [(''type'', JStr ''audio_data''), (''data'', JStr (b64encode b)),
                    (''mime_type'', JStr ''audio/pcm;rate=24000'')])]"
    using cb by (simp add: handle_gemini_response_def cb_set)
  have to_w: "fst x = w" if "x \<in> set (concat (map (handle_gemini_response ?g) rs))" for x
  proof -
    from that have "\<exists>r'. x \<in> set (handle_gemini_response ?g r')"
      by auto
    then obtain r' where "x \<in> set (handle_gemini_response ?g r')"
      by blast
    then show ?thesis
      by (rule handle_gemini_response_dest [OF cb])
  qed
  have keep: "filter (\<lambda>(w', m). w' \<in> active_connections s)
        (concat (map (handle_gemini_response ?g) rs)) =
      concat (map (handle_gemini_response ?g) rs)"
    using to_w act by (intro filter_True) (auto simp: case_prod_beta)
  have wire: "session ?g \<noteq> None \<longrightarrow>
      ws_sends (trace (listener_task c rs fin s)) =
        ws_sends (trace s) @ concat (map (handle_gemini_response ?g) rs)"
    by (simp add: listener_task_trace listen_for_messages_calls keep ws_sends_append
        ws_sends_WsSend)
  have idle: "session ?g = None \<longrightarrow> trace (listener_task c rs fin s) = trace s"
    by (simp add: listener_task_trace listen_for_messages_calls)
  have no_adapter: "adapter_calls (trace (listener_task c rs fin s)) = adapter_calls (trace s)"
    by (simp add: listener_task_trace adapter_calls_append adapter_calls_WsSend)
  have no_sdk: "sdk_calls (trace (listener_task c rs fin s)) = sdk_calls (trace s)"
    by (simp add: listener_task_trace sdk_calls_append sdk_calls_WsSend)
  show ?thesis
    using calls [of r] types dests dist special audio wire idle no_adapter no_sdk by blast
qed

theorem backend_facets_witness:
  "wf_server two_clients \<and> clients two_clients 1 = Some 0 \<and>
   handle_gemini_response (heap two_clients 0) turn_and_usage =
     [(1, [(''type'', JStr ''ai_stopped_speaking'')]),
      (1, [(''type'', JStr ''usage_metadata''), (''total_tokens'', JInt 42)])] \<and>
   ws_sends (trace (listener_task 0 [audio_chunk, turn_and_usage] StreamRaises two_clients)) =
     ws_sends (trace two_clients) @
       [(1, [(''type'', JStr ''audio_data''), (''data'', JStr ''AQID''),
             (''mime_type'', JStr ''audio/pcm;rate=24000'')]),
        (1, [(''type'', JStr ''ai_stopped_speaking'')]),
        (1, [(''type'', JStr ''usage_metadata''), (''total_tokens'', JInt 42)])]"
proof -
  have c: "clients two_clients 1 = Some 0" and h: "heap two_clients 0 = connected_client"
    using two_clients_eval by simp_all
  have live: "session (heap two_clients 0) \<noteq> None"
    by (simp add: h connected_client_def)
  have enc: "b64encode [1, 2, 3] = ''AQID''"
    by (simp add: b64_char_def b64_alphabet_def)
  have tu: "handle_gemini_response (heap two_clients 0) turn_and_usage =
     [(1, [(''type'', JStr ''ai_stopped_speaking'')]),
      (1, [(''type'', JStr ''usage_metadata''), (''total_tokens'', JInt 42)])]"
    using backend_facets [OF wf_two_clients c, of turn_and_usage
        "\<lparr>turn_complete = Some True, interrupted = None\<rparr>" "\<lparr>total_token_count = Some 42\<rparr>"]
    by (simp add: turn_and_usage_def opt_int_def facet_message_def facet_present_def
        facet_order_def)
  have chunk: "data audio_chunk = Some [1, 2, 3] \<and> server_content audio_chunk = None \<and>
      usage_metadata audio_chunk = None"
    by (simp add: audio_chunk_def)
  have "handle_gemini_response (heap two_clients 0) audio_chunk =
     [(1, [(''type'', JStr ''audio_data''), (''data'', JStr (b64encode [1, 2, 3])),
           (''mime_type'', JStr ''audio/pcm;rate=24000'')])]"
    using chunk backend_facets [OF wf_two_clients c, where r = audio_chunk and b = "[1, 2, 3]"]
    by blast
  then have au: "handle_gemini_response (heap two_clients 0) audio_chunk =
     [(1, [(''type'', JStr ''audio_data''), (''data'', JStr ''AQID''),
           (''mime_type'', JStr ''audio/pcm;rate=24000'')])]"
    by (simp only: enc)
  have wire: "ws_sends (trace (listener_task 0 [audio_chunk, turn_and_usage] StreamRaises two_clients)) =
      ws_sends (trace two_clients) @
        concat (map (handle_gemini_response (heap two_clients 0)) [audio_chunk, turn_and_usage])"
    using backend_facets [OF wf_two_clients c, of _ _ _ _ "[audio_chunk, turn_and_usage]" StreamRaises]
      live by blast
  show ?thesis
    using wf_two_clients c tu wire by (simp add: au)
qed

section \<open>Frames with a required field missing\<close>

text \<open>
  C7, as stated, fails: an \<open>audio_data\<close> frame without \<open>data\<close> and a \<open>text_message\<close> frame
  without \<open>text\<close> are dropped in silence; no \<open>error\<close> message is sent.
\<close>

theorem missing_field_counterexample:
  \<open>handle_client_message sample_env 1 ''{"type": "audio_data"}'' one_client = one_client \<and>
   handle_client_message sample_env 1 ''{"type": "text_message"}'' one_client = one_client\<close>
  using one_client_eval
  by (simp add: handle_client_message_def sample_defs dict_get_def dict_get_default_def)

text \<open>
  C7, amended. A well-formed frame of type \<open>audio_data\<close> whose \<open>data\<close> field is absent, or of
  type \<open>text_message\<close> whose \<open>text\<close> field is absent, arriving on a registered websocket, is
  ignored: nothing is sent to the client, no method of a client object is called, and the
  state is unchanged.
\<close>

theorem missing_field_ignored:
  assumes "json_loads e raw = Inr (JObj d)" and "clients s w = Some c"
  shows "(dict_get d ''type'' = JStr ''audio_data'' \<and> map_of d ''data'' = None \<longrightarrow>
            handle_client_message e w raw s = s) \<and>
         (dict_get d ''type'' = JStr ''text_message'' \<and> map_of d ''text'' = None \<longrightarrow>
            handle_client_message e w raw s = s)"
  using assms
  by (simp add: handle_client_message_def dict_get_def)

theorem missing_field_ignored_witness:
  \<open>handle_client_message sample_env 1 ''{"type": "audio_data"}'' one_client = one_client \<and>
   handle_client_message sample_env 1 ''{"type": "text_message"}'' one_client = one_client \<and>
   map_of [(''type'', JStr ''audio_data'')] ''data'' = None \<and>
   map_of [(''type'', JStr ''text_message'')] ''text'' = None\<close>
proof -
  have l1: \<open>json_loads sample_env ''{"type": "audio_data"}'' =
      Inr (JObj [(''type'', JStr ''audio_data'')])\<close>
    by (simp add: sample_defs)
  have l2: \<open>json_loads sample_env ''{"type": "text_message"}'' =
      Inr (JObj [(''type'', JStr ''text_message'')])\<close>
    by (simp add: sample_defs)
  have c: "clients one_client 1 = Some 0"
    using one_client_eval by simp
  show ?thesis
    using missing_field_ignored [OF l1 c] missing_field_ignored [OF l2 c]
    by (simp add: dict_get_def)
qed

section \<open>Speaking notifications\<close>

text \<open>
  C10. On a registered websocket, a \<open>user_speaking_started\<close> frame is answered with exactly
  one message of type \<open>user_speaking_acknowledged\<close>, and a \<open>user_speaking_stopped\<close> frame
  with exactly one of type \<open>user_speaking_ended_acknowledged\<close>; nothing else happens (no
  method of a client object is called). This holds for \<open>handle_client_message\<close> of the
  websocket server and for \<open>handle_message\<close> of the integrated server. Neither type is in
  the specification's table of server-to-client frames.
\<close>

theorem speaking_acknowledged:
  assumes "json_loads e raw = Inr (JObj d)"
    and "clients s w = Some c" and "w \<in> active_connections s"
    and "active_connections_dict sm w = Some cm"
  shows "(dict_get d ''type'' = JStr ''user_speaking_started'' \<longrightarrow>
            handle_client_message e w raw s =
              s\<lparr>trace := trace s @ [WsSend w [(''type'', JStr ''user_speaking_acknowledged'')]]\<rparr> \<and>
            handle_message e w raw sm =
              sm\<lparr>trace := trace sm @ [WsSend w [(''type'', JStr ''user_speaking_acknowledged'')]]\<rparr>) \<and>
         (dict_get d ''type'' = JStr ''user_speaking_stopped'' \<longrightarrow>
            handle_client_message e w raw s =
              s\<lparr>trace := trace s @ [WsSend w [(''type'', JStr ''user_speaking_ended_acknowledged'')]]\<rparr> \<and>
            handle_message e w raw sm =
              sm\<lparr>trace := trace sm @ [WsSend w [(''type'', JStr ''user_speaking_ended_acknowledged'')]]\<rparr>) \<and>
         ''user_speaking_acknowledged'' \<notin> set spec_outbound_types \<and>
         ''user_speaking_ended_acknowledged'' \<notin> set spec_outbound_types"
  using assms
  by (simp add: handle_client_message_def handle_message_def send_to_client_def
      manager_send_to_client_def spec_outbound_types_def domI)

theorem speaking_acknowledged_witness:
  \<open>handle_client_message sample_env 1 ''{"type": "user_speaking_started"}'' one_client =
     one_client\<lparr>trace := trace one_client @ [WsSend 1 [(''type'', JStr ''user_speaking_acknowledged'')]]\<rparr> \<and>
   handle_message sample_env 1 ''{"type": "user_speaking_started"}'' one_manager_client =
     one_manager_client\<lparr>trace := trace one_manager_client @
       [WsSend 1 [(''type'', JStr ''user_speaking_acknowledged'')]]\<rparr> \<and>
   handle_client_message sample_env 1 ''{"type": "user_speaking_stopped"}'' one_client =
     one_client\<lparr>trace := trace one_client @ [WsSend 1 [(''type'', JStr ''user_speaking_ended_acknowledged'')]]\<rparr> \<and>
   handle_message sample_env 1 ''{"type": "user_speaking_stopped"}'' one_manager_client =
     one_manager_client\<lparr>trace := trace one_manager_client @
       [WsSend 1 [(''type'', JStr ''user_speaking_ended_acknowledged'')]]\<rparr>\<close>
proof -
  have l1: \<open>json_loads sample_env ''{"type": "user_speaking_started"}'' = Inr (JObj [(''type'', JStr ''user_speaking_started'')])\<close>
    by (simp add: sample_defs)
  have l2: \<open>json_loads sample_env ''{"type": "user_speaking_stopped"}'' = Inr (JObj [(''type'', JStr ''user_speaking_stopped'')])\<close>
    by (simp add: sample_defs)
  have c: "clients one_client 1 = Some 0" and a: "1 \<in> active_connections one_client"
    using one_client_eval by simp_all
  have m: "active_connections_dict one_manager_client 1 = Some 0"
    using one_manager_client_eval by simp
  show ?thesis
    using speaking_acknowledged [OF l1 c a m] speaking_acknowledged [OF l2 c a m]
    by (simp add: dict_get_def)
qed


section \<open>Closing one connection leaves the others alone\<close>

text \<open>
  C9, as stated, fails in its clause that the adapter of the closed connection is closed:
  when the SDK's \<open>__aexit__\<close> raises, \<open>unregister_client\<close> removes the entry but the client
  object of \<open>a\<close> keeps its session handle and is not ended. (What the claim says about the
  other connection holds.)
\<close>

theorem unregister_not_ended_counterexample:
  "wf_server two_clients \<and> clients two_clients 1 = Some 0 \<and> clients two_clients 2 = Some 1 \<and>
   session (heap (unregister_client exit_raising_env 1 two_clients) 0) = Some AsyncSession \<and>
   \<not> ended (heap (unregister_client exit_raising_env 1 two_clients) 0)"
  using wf_two_clients two_clients_eval
  by (simp add: unregister_client_heap disconnect_def Let_def connected_client_def
      sample_defs ended_def)

text \<open>
  C9, amended. In a state that satisfies the registry invariant (every reachable state
  does), with two different websockets \<open>a\<close> and \<open>b\<close> registered, \<open>unregister_client\<close> for \<open>a\<close>
  removes the entry of \<open>a\<close> only and calls \<open>disconnect\<close>, once, on the client object of \<open>a\<close>
  only. That object is left not connected; its session handle is cleared, and the object
  ended, when \<open>__aexit__\<close> returns, and kept when \<open>__aexit__\<close> raises; \<open>__aexit__\<close> is the
  only SDK call, made when there was a handle. The entry of \<open>b\<close>, the object of \<open>b\<close> and
  every other entry and object are unchanged, \<open>b\<close> stays an open connection, and the
  number of registry entries (and of open connections) goes down by exactly one.
\<close>

theorem unregister_frame:
  assumes "wf_server s" and "clients s a = Some ca" and "clients s b = Some cb" and "a \<noteq> b"
  shows "clients (unregister_client e a s) a = None \<and>
         clients (unregister_client e a s) b = Some cb \<and>
         heap (unregister_client e a s) cb = heap s cb \<and>
         b \<in> active_connections (unregister_client e a s) \<and>
         Suc (card (dom (clients (unregister_client e a s)))) = card (dom (clients s)) \<and>
         Suc (card (active_connections (unregister_client e a s))) = card (active_connections s) \<and>
         adapter_calls (trace (unregister_client e a s)) =
           adapter_calls (trace s) @ [(ca, Disconnect)] \<and>
         sdk_calls (trace (unregister_client e a s)) =
           sdk_calls (trace s) @ map (Pair ca) (snd (disconnect e (heap s ca))) \<and>
         heap (unregister_client e a s) ca = fst (disconnect e (heap s ca)) \<and>
         is_connected (heap (unregister_client e a s) ca) = False \<and>
         session (heap (unregister_client e a s) ca) =
           (if session_exit_raises e then session (heap s ca) else None) \<and>
         ended (heap (unregister_client e a s) ca) =
           (session (heap s ca) = None \<or> \<not> session_exit_raises e) \<and>
         sdk_calls (trace (unregister_client e a s)) =
           sdk_calls (trace s) @ (if session (heap s ca) = None then [] else [(ca, SessionExit)]) \<and>
         ws_sends (trace (unregister_client e a s)) = ws_sends (trace s) \<and>
         (\<forall>c'. c' \<noteq> ca \<longrightarrow> heap (unregister_client e a s) c' = heap s c') \<and>
         (\<forall>x. x \<noteq> a \<longrightarrow> clients (unregister_client e a s) x = clients s x) \<and>
         active_connections (unregister_client e a s) = active_connections s - {a}"
proof -
  note wf = wf_serverD [OF assms(1)]
  let ?s = "unregister_client e a s"
  have a_in: "a \<in> dom (clients s)" and b_in: "b \<in> dom (clients s)"
    using assms by auto
  have ne: "ca \<noteq> cb"
  proof
    assume "ca = cb"
    then have "clients s a = clients s b" using assms by simp
    then have "a = b" using wf(3) a_in b_in by (auto dest: inj_onD)
    then show False using assms(4) by simp
  qed
  have fin: "finite (dom (clients s))"
    using wf(1) wf(2) by (rule rev_finite_subset)
  have a_act: "a \<in> active_connections s" and b_act: "b \<in> active_connections s"
    using wf(2) a_in b_in by auto
  have card1: "Suc (card (dom (clients s) - {a})) = card (dom (clients s))"
    using fin a_in by (rule card_Suc_Diff1)
  have card2: "Suc (card (active_connections s - {a})) = card (active_connections s)"
    using wf(1) a_act by (rule card_Suc_Diff1)
  have dom': "dom ((clients s)(a := None)) = dom (clients s) - {a}"
    by auto
  have hp: "heap ?s = (heap s)(ca := fst (disconnect e (heap s ca)))"
    using assms(2) by (simp add: unregister_client_heap)
  have tr: "trace ?s = trace s @ call_events ca Disconnect (snd (disconnect e (heap s ca)))"
    using assms(2) by (simp add: unregister_client_trace)
  have g1: "clients ?s a = None"
    by (simp add: unregister_client_fields)
  have g2: "clients ?s b = Some cb"
    using assms(3,4) by (simp add: unregister_client_fields)
  have g3: "heap ?s cb = heap s cb"
    using ne by (simp add: hp)
  have g4: "b \<in> active_connections ?s"
    using b_act assms(4) by (simp add: unregister_client_fields)
  have g5: "Suc (card (dom (clients ?s))) = card (dom (clients s))"
    unfolding unregister_client_fields dom' by (rule card1)
  have g6: "Suc (card (active_connections ?s)) = card (active_connections s)"
    unfolding unregister_client_fields by (rule card2)
  have g7: "adapter_calls (trace ?s) = adapter_calls (trace s) @ [(ca, Disconnect)]"
    by (simp add: tr adapter_calls_append adapter_calls_call_events)
  have g8: "sdk_calls (trace ?s) =
      sdk_calls (trace s) @ map (Pair ca) (snd (disconnect e (heap s ca)))"
    by (simp add: tr sdk_calls_append sdk_calls_call_events)
  have g9: "heap ?s ca = fst (disconnect e (heap s ca))"
    by (simp add: hp)
  have g10: "is_connected (heap ?s ca) = False"
    unfolding g9 using disconnect_result [of e "heap s ca"] by blast
  have g11: "session (heap ?s ca) = (if session_exit_raises e then session (heap s ca) else None)"
    unfolding g9 using disconnect_result [of e "heap s ca"] by blast
  have g12: "ended (heap ?s ca) = (session (heap s ca) = None \<or> \<not> session_exit_raises e)"
    unfolding ended_def g10 g11 by simp
  have g13: "sdk_calls (trace ?s) =
      sdk_calls (trace s) @ (if session (heap s ca) = None then [] else [(ca, SessionExit)])"
    unfolding g8 using disconnect_result [of e "heap s ca"] by simp
  have g14: "ws_sends (trace ?s) = ws_sends (trace s)"
    by (simp add: tr ws_sends_append ws_sends_call_events)
  have g15: "\<forall>c'. c' \<noteq> ca \<longrightarrow> heap ?s c' = heap s c'"
    by (simp add: hp)
  have g16: "\<forall>x. x \<noteq> a \<longrightarrow> clients ?s x = clients s x"
    by (simp add: unregister_client_fields)
  have g17: "active_connections ?s = active_connections s - {a}"
    by (simp add: unregister_client_fields)
  show ?thesis
    using g1 g2 g3 g4 g5 g6 g7 g8 g9 g10 g11 g12 g13 g14 g15 g16 g17 by blast
qed

theorem unregister_frame_witness:
  "wf_server two_clients \<and> clients two_clients 1 = Some 0 \<and> clients two_clients 2 = Some 1 \<and>
   clients (unregister_client sample_env 1 two_clients) 1 = None \<and>
   clients (unregister_client sample_env 1 two_clients) 2 = Some 1 \<and>
   heap (unregister_client sample_env 1 two_clients) 1 = heap two_clients 1 \<and>
   ended (heap (unregister_client sample_env 1 two_clients) 0) \<and>
   Suc (card (dom (clients (unregister_client sample_env 1 two_clients)))) =
     card (dom (clients two_clients))"
proof -
  have c1: "clients two_clients 1 = Some 0" and c2: "clients two_clients 2 = Some 1"
    using two_clients_eval by simp_all
  have ne: "(1::nat) \<noteq> 2" by simp
  have ok: "\<not> session_exit_raises sample_env"
    by (simp add: sample_defs)
  note frame = unregister_frame [OF wf_two_clients c1 c2 ne, of sample_env]
  have closed: "ended (heap (unregister_client sample_env 1 two_clients) 0)"
    using frame ok by blast
  show ?thesis
    using wf_two_clients c1 c2 closed frame by blast
qed

section \<open>Closing twice\<close>

text \<open>
  C8, as stated, fails when the SDK's \<open>__aexit__\<close> raises during the first \<open>disconnect\<close>:
  the session handle is kept, so a second \<open>disconnect\<close> calls \<open>__aexit__\<close> again, and can
  change the object once more.
\<close>

theorem close_twice_counterexample:
  "streaming connected_client \<and>
   session (fst (disconnect exit_raising_env connected_client)) = Some AsyncSession \<and>
   snd (disconnect exit_raising_env (fst (disconnect exit_raising_env connected_client))) =
     [SessionExit] \<and>
   fst (disconnect sample_env (fst (disconnect exit_raising_env connected_client))) \<noteq>
     fst (disconnect exit_raising_env connected_client)"
  by (simp add: disconnect_def Let_def sample_defs connected_client_def streaming_def
      gemini_live_client_init_def)

text \<open>
  C8, amended. When the first \<open>disconnect\<close> finds no session handle or its \<open>__aexit__\<close>
  returns, it leaves the client ended, and \<open>disconnect\<close> on an ended client is a no-op:
  the object is unchanged and no SDK call is made, whatever the environment.
  \<open>unregister_client\<close> for a websocket, called again after it has run, changes nothing,
  whatever either environment does.
\<close>

theorem close_idempotent:
  "(session g = None \<or> \<not> session_exit_raises e1 \<longrightarrow>
      ended (fst (disconnect e1 g)) \<and>
      disconnect e2 (fst (disconnect e1 g)) = (fst (disconnect e1 g), [])) \<and>
   (ended g \<longrightarrow> disconnect e2 g = (g, [])) \<and>
   unregister_client e2 w (unregister_client e1 w s) = unregister_client e1 w s"
  using disconnect_ended disconnect_ends unregister_client_again by blast

theorem close_idempotent_witness:
  "\<not> session_exit_raises sample_env \<and>
   fst (disconnect sample_env connected_client) =
     connected_client\<lparr>session := None, is_connected := False\<rparr> \<and>
   snd (disconnect sample_env connected_client) = [SessionExit] \<and>
   disconnect exit_raising_env (fst (disconnect sample_env connected_client)) =
     (fst (disconnect sample_env connected_client), []) \<and>
   unregister_client exit_raising_env 1 (unregister_client sample_env 1 one_client) =
     unregister_client sample_env 1 one_client"
proof -
  have ok: "\<not> session_exit_raises sample_env"
    by (simp add: sample_defs)
  have first: "disconnect sample_env connected_client =
      (connected_client\<lparr>session := None, is_connected := False\<rparr>, [SessionExit])"
    by (simp add: disconnect_def Let_def sample_defs connected_client_def)
  show ?thesis
    using ok first
      close_idempotent [of connected_client sample_env exit_raising_env 1 one_client]
    by simp
qed

section \<open>A failed connect\<close>

text \<open>
  C1, as stated, fails: \<open>register_client\<close> enters the websocket into \<open>active_connections\<close>
  and \<open>clients\<close> before it calls \<open>connect\<close>, and removes nothing when \<open>connect\<close> returns
  \<open>False\<close>.
\<close>

theorem connect_failure_counterexample:
  "live_connect connect_failing_env \<noteq> Entered \<and>
   clients (register_client connect_failing_env 1 (server_init ''key'')) 1 = Some 0 \<and>
   1 \<in> active_connections (register_client connect_failing_env 1 (server_init ''key''))"
  by (simp add: register_client_fields server_init_def sample_defs)

text \<open>
  C1, amended. When opening the backend session fails, \<open>register_client\<close> sends exactly one
  message to that client, of type \<open>error\<close>; the websocket stays registered and open, with a
  client object that is not streaming, until \<open>unregister_client\<close> removes it.
\<close>

theorem connect_failure_registered:
  assumes "live_connect e \<noteq> Entered"
  shows "ws_sends (trace (register_client e w s)) =
           ws_sends (trace s) @ [(w, error_frame msg_connect_failed)] \<and>
         msg_type (error_frame msg_connect_failed) = JStr ''error'' \<and>
         clients (register_client e w s) w = Some (next_cid s) \<and>
         w \<in> active_connections (register_client e w s) \<and>
         \<not> streaming (heap (register_client e w s) (next_cid s)) \<and>
         clients (unregister_client e' w (register_client e w s)) w = None \<and>
         w \<notin> active_connections (unregister_client e' w (register_client e w s))"
proof -
  have sends: "ws_sends (trace (register_client e w s)) =
           ws_sends (trace s) @ [(w, error_frame msg_connect_failed)]"
    by (simp add: register_client_failed(1) [OF assms] ws_sends_append ws_sends_call_events)
  have ty: "msg_type (error_frame msg_connect_failed) = JStr ''error''"
    by (simp add: msg_type_def dict_get_def error_frame_def)
  have idle: "\<not> streaming (heap (register_client e w s) (next_cid s))"
    using register_client_failed(2) [OF assms] by (simp add: streaming_def)
  show ?thesis
    using sends ty idle by (simp add: register_client_fields unregister_client_fields)
qed

theorem connect_failure_registered_witness:
  "live_connect connect_failing_env \<noteq> Entered \<and>
   ws_sends (trace (register_client connect_failing_env 1 (server_init ''key''))) =
     [(1, error_frame msg_connect_failed)] \<and>
   clients (register_client connect_failing_env 1 (server_init ''key'')) 1 = Some 0 \<and>
   clients (unregister_client sample_env 1
     (register_client connect_failing_env 1 (server_init ''key''))) 1 = None"
proof -
  have f: "live_connect connect_failing_env \<noteq> Entered"
    by (simp add: sample_defs)
  show ?thesis
    using f connect_failure_registered [OF f, of 1 "server_init ''key''" sample_env]
    by (simp add: server_init_def)
qed

section \<open>A failure of the listening task\<close>

text \<open>
  C2, as stated, fails: an exception in \<open>_listen_for_messages\<close> only clears \<open>is_connected\<close>.
  The registry entry stays, the connection stays open, the session handle is kept and
  \<open>disconnect\<close> is not called.
\<close>

theorem listener_failure_counterexample:
  "streaming (heap one_client 0) \<and>
   clients (listener_task 0 [] StreamRaises one_client) 1 = Some 0 \<and>
   1 \<in> active_connections (listener_task 0 [] StreamRaises one_client) \<and>
   session (heap (listener_task 0 [] StreamRaises one_client) 0) = Some AsyncSession \<and>
   trace (listener_task 0 [] StreamRaises one_client) = trace one_client"
  using one_client_eval
  by (simp add: listener_task_fields listener_task_trace listen_for_messages_def
      connected_client_def streaming_def)

text \<open>
  C2, amended. When the listening task of a client ends with an exception, the client is
  marked not connected (if it had a session handle) and nothing else happens: the session
  handle, every other client object, the registry and the open connections are unchanged,
  and no method of a client and no SDK call is made. When the stream just ends, no client
  object changes. The entry is removed only by \<open>unregister_client\<close>.
\<close>

theorem listener_failure:
  "clients (listener_task c rs StreamRaises s) = clients s \<and>
   active_connections (listener_task c rs StreamRaises s) = active_connections s \<and>
   session (heap (listener_task c rs StreamRaises s) c) = session (heap s c) \<and>
   (session (heap s c) \<noteq> None \<longrightarrow> \<not> is_connected (heap (listener_task c rs StreamRaises s) c)) \<and>
   (\<forall>c'. c' \<noteq> c \<longrightarrow> heap (listener_task c rs StreamRaises s) c' = heap s c') \<and>
   adapter_calls (trace (listener_task c rs StreamRaises s)) = adapter_calls (trace s) \<and>
   sdk_calls (trace (listener_task c rs StreamRaises s)) = sdk_calls (trace s) \<and>
   heap (listener_task c rs StreamExhausted s) = heap s"
proof -
  have h1: "session (heap (listener_task c rs StreamRaises s) c) = session (heap s c)"
    by (simp add: listener_task_fields listen_for_messages_def Let_def)
  have h2: "session (heap s c) \<noteq> None \<longrightarrow>
      \<not> is_connected (heap (listener_task c rs StreamRaises s) c)"
    by (simp add: listener_task_fields listen_for_messages_def Let_def)
  have h3: "\<forall>c'. c' \<noteq> c \<longrightarrow> heap (listener_task c rs StreamRaises s) c' = heap s c'"
    by (simp add: listener_task_fields)
  have h4: "adapter_calls (trace (listener_task c rs StreamRaises s)) = adapter_calls (trace s)"
    by (simp add: listener_task_trace adapter_calls_append adapter_calls_WsSend)
  have h5: "sdk_calls (trace (listener_task c rs StreamRaises s)) = sdk_calls (trace s)"
    by (simp add: listener_task_trace sdk_calls_append sdk_calls_WsSend)
  have h6: "heap (listener_task c rs StreamExhausted s) = heap s"
    by (simp add: listener_task_fields listen_for_messages_def Let_def)
  show ?thesis
    using h1 h2 h3 h4 h5 h6 by (simp add: listener_task_fields)
qed

theorem listener_failure_witness:
  "session (heap one_client 0) \<noteq> None \<and>
   clients (listener_task 0 [turn_and_usage] StreamRaises one_client) 1 = Some 0 \<and>
   \<not> is_connected (heap (listener_task 0 [turn_and_usage] StreamRaises one_client) 0) \<and>
   session (heap (listener_task 0 [turn_and_usage] StreamRaises one_client) 0) = Some AsyncSession \<and>
   adapter_calls (trace (listener_task 0 [turn_and_usage] StreamRaises one_client)) = [(0, Connect)]"
proof -
  have live: "session (heap one_client 0) \<noteq> None"
    using one_client_eval by (simp add: connected_client_def)
  show ?thesis
    using live one_client_eval listener_failure [of 0 "[turn_and_usage]" one_client]
    by (simp add: connected_client_def)
qed

end
